theory Spec2Isabelle
  imports Complex_Main
begin

section \<open>Schema model (src/types/index.ts)\<close>

text \<open>
  The interfaces \<open>Column\<close>, \<open>Table\<close>, \<open>Schema\<close>, \<open>Message\<close> and \<open>Project\<close> become records.
  An optional property (\<open>id?\<close>, \<open>foreignKeyTable?\<close>, \<open>x?\<close>, ...) is an \<open>option\<close>, \<open>None\<close>
  standing for \<open>undefined\<close>. Field names carry a one-letter prefix where two interfaces
  share a name or the name is taken in HOL (\<open>id\<close>, \<open>name\<close>, \<open>type\<close>, \<open>x\<close>, \<open>y\<close>).
  Strings are \<open>string\<close>. A stored coordinate is a finite number, the not-a-number value
  (which the N-to-N branch of \<open>handleAddConnection\<close> computes from a missing position)
  or \<open>null\<close> (which a JSON round trip makes of not-a-number); the infinities and the
  rounding of IEEE arithmetic are not represented.
\<close>

datatype coord = Num real | NaN | Null

record Column =
  cid :: "string option"
  cname :: string
  ctype :: string
  isPrimaryKey :: bool
  isForeignKey :: bool
  foreignKeyTable :: "string option"
  foreignKeyColumn :: "string option"
  constraints :: "string list"

record Table =
  tid :: "string option"
  tname :: string
  columns :: "Column list"
  tx :: "coord option"
  ty :: "coord option"

record Schema =
  tables :: "Table list"

datatype Sender = User | Ai

record Message =
  sender :: Sender
  mtext :: string

datatype ActiveTool = Select | AddTable | AddConnection_1_n | AddConnection_n_n

record Project =
  pid :: string
  pname :: string
  schema :: "Schema option"
  messages :: "Message list"
  ddl :: string
  undoStack :: "Schema option list"
  redoStack :: "Schema option list"
  lastModified :: nat

section \<open>JavaScript helpers\<close>

text \<open>
  \<open>new Map(entries)\<close> sets the entries in order, so a later entry with the same key
  replaces an earlier one: \<open>get\<close> returns the value of the last entry with that key.
\<close>

definition jsMap :: "('k \<times> 'v) list \<Rightarrow> 'k \<Rightarrow> 'v option" where
  "jsMap entries = map_of (rev entries)"

text \<open>A JavaScript \<open>Set\<close> kept in insertion order: \<open>add\<close> of a member changes nothing.\<close>

definition setAdd :: "'a list \<Rightarrow> 'a \<Rightarrow> 'a list" where
  "setAdd xs v = (if v \<in> set xs then xs else xs @ [v])"

text \<open>Truthiness of an optional string: \<open>undefined\<close> and the empty string are falsy.\<close>

definition truthy :: "string option \<Rightarrow> bool" where
  "truthy v = (case v of None \<Rightarrow> False | Some str \<Rightarrow> str \<noteq> [])"

text \<open>
  \<open>u ?? v\<close> on an optional coordinate: \<open>v\<close> when \<open>u\<close> is \<open>undefined\<close> or \<open>null\<close>.
\<close>

definition nullish :: "coord option \<Rightarrow> bool" where
  "nullish u = (u = None \<or> u = Some Null)"

definition orElse :: "coord option \<Rightarrow> coord option \<Rightarrow> coord option" where
  "orElse u v = (if nullish u then v else u)"

text \<open>
  The number an arithmetic operator reads from an optional coordinate, \<open>None\<close> standing
  for not-a-number: \<open>undefined\<close> reads as not-a-number and \<open>null\<close> as 0.
\<close>

definition toNumber :: "coord option \<Rightarrow> real option" where
  "toNumber u = (case u of None \<Rightarrow> None | Some Null \<Rightarrow> Some 0 | Some NaN \<Rightarrow> None
                 | Some (Num r) \<Rightarrow> Some r)"

text \<open>
  What \<open>JSON.parse(JSON.stringify(v))\<close> makes of an optional coordinate: not-a-number is
  written as \<open>null\<close>, an absent property stays absent.
\<close>

definition jsonCoord :: "coord option \<Rightarrow> coord option" where
  "jsonCoord u = (if u = Some NaN then Some Null else u)"

section \<open>Relationship Deriver (SchemaGraph, the nodes/links memo)\<close>

datatype LinkType = OneToN | NToN

record GraphLink =
  source :: "string option"
  target :: "string option"
  linkType :: LinkType

record GraphNode =
  nodeId :: "string option"
  nodeTable :: Table
  width :: nat
  height :: nat
  fx :: "coord option"
  fy :: "coord option"

record Graph =
  nodes :: "GraphNode list"
  links :: "GraphLink list"

datatype error = TypeError

definition TABLE_WIDTH :: nat where "TABLE_WIDTH = 200"
definition TABLE_HEADER_HEIGHT :: nat where "TABLE_HEADER_HEIGHT = 45"
definition COLUMN_HEIGHT :: nat where "COLUMN_HEIGHT = 28"
definition TABLE_FOOTER_HEIGHT :: nat where "TABLE_FOOTER_HEIGHT = 40"

definition tableHeight :: "Table \<Rightarrow> nat" where
  "tableHeight t = TABLE_HEADER_HEIGHT + length (columns t) * COLUMN_HEIGHT + TABLE_FOOTER_HEIGHT"

text \<open>
  The test of the first \<open>forEach\<close>: exactly two columns, two of them primary keys and
  two of them foreign keys.
\<close>

definition isJunction :: "Table \<Rightarrow> bool" where
  "isJunction t =
     (length (columns t) = 2 \<and> length (filter isPrimaryKey (columns t)) = 2
      \<and> length (filter isForeignKey (columns t)) = 2)"

text \<open>
  \<open>junctionTableIds\<close>: the identifiers (possibly \<open>undefined\<close>) of the junction tables, a
  \<open>Set\<close> in insertion order. (\<open>junctionLinks\<close> is written by the source and never read.)
\<close>

definition junctionTableIds :: "Schema \<Rightarrow> string option list" where
  "junctionTableIds s =
     foldl (\<lambda>acc t. if isJunction t then setAdd acc (tid t) else acc) [] (tables s)"

definition tableMap :: "Schema \<Rightarrow> string \<Rightarrow> Table option" where
  "tableMap s = jsMap (map (\<lambda>t. (tname t, t)) (tables s))"

text \<open>\<open>tableMap.get(k)\<close> for a key that may be \<open>undefined\<close>: no table has that name.\<close>

definition tableMapGet :: "Schema \<Rightarrow> string option \<Rightarrow> Table option" where
  "tableMapGet s k = (case k of None \<Rightarrow> None | Some n \<Rightarrow> tableMap s n)"

text \<open>
  The body of \<open>junctionTableIds.forEach\<close> once the table is found: the links it pushes.
  \<open>fks[0]\<close> or \<open>fks[1]\<close> is \<open>undefined\<close> when the table has fewer than two foreign-key
  columns, and reading \<open>.foreignKeyTable\<close> of it throws.
\<close>

definition junctionEdgeOf :: "Schema \<Rightarrow> Table \<Rightarrow> error + GraphLink list" where
  "junctionEdgeOf s t =
     (case filter isForeignKey (columns t) of
        f0 # f1 # _ \<Rightarrow>
          (case (tableMapGet s (foreignKeyTable f0), tableMapGet s (foreignKeyTable f1)) of
             (Some table1, Some table2) \<Rightarrow>
               Inr [\<lparr>source = tid table1, target = tid table2, linkType = NToN\<rparr>]
           | _ \<Rightarrow> Inr [])
      | _ \<Rightarrow> Inl TypeError)"

text \<open>
  The whole body: \<open>schema.tables.find(t => t.id === jId)\<close> is the first table with that
  identifier, which need not be the junction table that put \<open>jId\<close> into the set.
\<close>

definition junctionEdge :: "Schema \<Rightarrow> string option \<Rightarrow> error + GraphLink list" where
  "junctionEdge s jId =
     (case find (\<lambda>t. tid t = jId) (tables s) of
        None \<Rightarrow> Inl TypeError
      | Some t \<Rightarrow> junctionEdgeOf s t)"

fun junctionLoop :: "Schema \<Rightarrow> string option list \<Rightarrow> error + GraphLink list" where
  "junctionLoop s [] = Inr []"
| "junctionLoop s (jId # rest) =
     (case junctionEdge s jId of
        Inl e \<Rightarrow> Inl e
      | Inr pushed \<Rightarrow>
          (case junctionLoop s rest of Inl e \<Rightarrow> Inl e | Inr others \<Rightarrow> Inr (pushed @ others)))"

text \<open>The second \<open>schema.tables.forEach\<close>: the 1-to-N links of the regular tables.\<close>

definition columnLink :: "Schema \<Rightarrow> Table \<Rightarrow> Column \<Rightarrow> GraphLink list" where
  "columnLink s t c =
     (if isForeignKey c \<and> truthy (foreignKeyTable c) then
        (case tableMapGet s (foreignKeyTable c) of
           Some targetTable \<Rightarrow>
             (if tid targetTable \<notin> set (junctionTableIds s)
              then [\<lparr>source = tid t, target = tid targetTable, linkType = OneToN\<rparr>]
              else [])
         | None \<Rightarrow> [])
      else [])"

definition foreignKeyLinks :: "Schema \<Rightarrow> GraphLink list" where
  "foreignKeyLinks s =
     concat (map (\<lambda>t. if tid t \<in> set (junctionTableIds s) then []
                       else concat (map (columnLink s t) (columns t))) (tables s))"

definition mkNode :: "Table \<Rightarrow> GraphNode" where
  "mkNode t = \<lparr>nodeId = tid t, nodeTable = t, width = TABLE_WIDTH, height = tableHeight t,
               fx = tx t, fy = ty t\<rparr>"

definition finalNodes :: "Schema \<Rightarrow> GraphNode list" where
  "finalNodes s = map mkNode (filter (\<lambda>t. tid t \<notin> set (junctionTableIds s)) (tables s))"

definition derive :: "Schema option \<Rightarrow> error + Graph" where
  "derive schema0 =
     (case schema0 of
        None \<Rightarrow> Inr \<lparr>nodes = [], links = []\<rparr>
      | Some s \<Rightarrow>
          (case junctionLoop s (junctionTableIds s) of
             Inl e \<Rightarrow> Inl e
           | Inr nn \<Rightarrow> Inr \<lparr>nodes = finalNodes s, links = nn @ foreignKeyLinks s\<rparr>))"

section \<open>Strings built by the handlers\<close>

text \<open>
  A template literal \<open>${n}\<close> of a non-negative integer (a counter, \<open>Date.now()\<close>) is its
  decimal numeral without leading zeros.
\<close>

definition digitChar :: "nat \<Rightarrow> char" where
  "digitChar n = ''0123456789'' ! n"

fun decimal :: "nat \<Rightarrow> string" where
  "decimal n = (if n < 10 then [digitChar n] else decimal (n div 10) @ [digitChar (n mod 10)])"

declare decimal.simps [simp del]

definition dquote :: string where
  "dquote = [CHR 0x22]"

definition apostrophe :: string where
  "apostrophe = [CHR 0x27]"

text \<open>
  \<open>name.replace(/\s+/g, '_')\<close>: every maximal run of white space becomes one underscore.
  The flag says that the previous character was white space. Of the characters \<open>\s\<close>
  matches, those with a code below 256 are listed.
\<close>

definition isSpace :: "char \<Rightarrow> bool" where
  "isSpace c = (c \<in> set [CHR 0x20, CHR 0x09, CHR 0x0A, CHR 0x0B, CHR 0x0C, CHR 0x0D, CHR 0xA0])"

fun replaceSpaces :: "bool \<Rightarrow> string \<Rightarrow> string" where
  "replaceSpaces inRun [] = []"
| "replaceSpaces inRun (c # cs) =
     (if isSpace c then (if inRun then replaceSpaces True cs else CHR ''_'' # replaceSpaces True cs)
      else c # replaceSpaces False cs)"

text \<open>
  The naming loops of \<open>handleAddTable\<close> and \<open>handleAddConnection\<close> have one shape: the
  candidate is the base name while the counter is 1 and \<open>base_counter\<close> after that, and
  the counter goes up while the candidate is taken.
\<close>

definition candidateName :: "string \<Rightarrow> nat \<Rightarrow> string" where
  "candidateName base counter = (if counter > 1 then base @ ''_'' @ decimal counter else base)"

lemma digitChar_inject:
  assumes "m < 10" and "n < 10" and "digitChar m = digitChar n"
  shows "m = n"
proof -
  have m: "m \<in> {0, 1, 2, 3, 4, 5, 6, 7, 8, 9}" using assms(1) by auto
  have n: "n \<in> {0, 1, 2, 3, 4, 5, 6, 7, 8, 9}" using assms(2) by auto
  from m n assms(3) show ?thesis
    by (auto simp: digitChar_def)
qed

lemma decimal_not_Nil: "decimal n \<noteq> []"
  by (subst decimal.simps) simp

lemma decimal_inject: "decimal m = decimal n \<Longrightarrow> m = n"
proof (induction m arbitrary: n rule: decimal.induct)
  case (1 m)
  show ?case
  proof (cases "m < 10")
    case True
    show ?thesis
    proof (cases "n < 10")
      case nsmall: True
      from "1.prems" True nsmall have "digitChar m = digitChar n"
        by (simp add: decimal.simps[of m] decimal.simps[of n])
      with True nsmall show ?thesis by (rule digitChar_inject)
    next
      case False
      with "1.prems" True have "[digitChar m] = decimal (n div 10) @ [digitChar (n mod 10)]"
        by (simp add: decimal.simps[of m] decimal.simps[of n])
      then have "decimal (n div 10) = []" by simp
      then show ?thesis by (simp add: decimal_not_Nil)
    qed
  next
    case False
    show ?thesis
    proof (cases "n < 10")
      case True
      with "1.prems" False have "decimal (m div 10) @ [digitChar (m mod 10)] = [digitChar n]"
        by (simp add: decimal.simps[of m] decimal.simps[of n])
      then have "decimal (m div 10) = []" by simp
      then show ?thesis by (simp add: decimal_not_Nil)
    next
      case nbig: False
      from "1.prems" False nbig
      have "decimal (m div 10) @ [digitChar (m mod 10)] = decimal (n div 10) @ [digitChar (n mod 10)]"
        by (simp add: decimal.simps[of m] decimal.simps[of n])
      then have a: "decimal (m div 10) = decimal (n div 10)"
        and b: "digitChar (m mod 10) = digitChar (n mod 10)" by simp_all
      from "1.IH"[OF False a] have q: "m div 10 = n div 10" .
      have "m mod 10 = n mod 10" using b by (intro digitChar_inject) simp_all
      with q show ?thesis by (metis div_mult_mod_eq)
    qed
  qed
qed

lemma candidateName_inject:
  assumes "1 \<le> j" and "j < k"
  shows "candidateName base j \<noteq> candidateName base k"
proof (cases "j = 1")
  case True
  with assms show ?thesis by (simp add: candidateName_def)
next
  case False
  with assms have "decimal j \<noteq> decimal k" using decimal_inject[of j k] by auto
  with assms False show ?thesis by (simp add: candidateName_def)
qed

function unusedCounter :: "string \<Rightarrow> string list \<Rightarrow> nat \<Rightarrow> nat" where
  "unusedCounter base names counter =
     (if candidateName base counter \<in> set names then unusedCounter base names (counter + 1)
      else counter)"
  by pat_completeness auto
termination
proof (relation "measure (\<lambda>(base, names, counter).
         (if counter = 0 then 1 else 0)
         + length (filter (\<lambda>n. \<exists>k\<ge>counter. n = candidateName base k) names))")
  show "wf (measure (\<lambda>(base, names, counter).
         (if counter = 0 then 1 else 0)
         + length (filter (\<lambda>n. \<exists>k\<ge>counter. n = candidateName base k) names)))"
    by simp
next
  fix base :: string and names :: "string list" and counter :: nat
  assume taken: "candidateName base counter \<in> set names"
  let ?P = "\<lambda>c n. \<exists>k\<ge>c. n = candidateName base k"
  have sub: "filter (?P (counter + 1)) names = filter (?P (counter + 1)) (filter (?P counter) names)"
    by (auto intro!: filter_cong simp: filter_filter) (metis Suc_leD)
  have le: "length (filter (?P (counter + 1)) names) \<le> length (filter (?P counter) names)"
    by (subst sub) (rule length_filter_le)
  have "length (filter (?P (counter + 1)) names) < length (filter (?P counter) names)"
    if "counter \<noteq> 0"
  proof -
    have mem: "candidateName base counter \<in> set (filter (?P counter) names)"
      using taken by auto
    have "\<not> ?P (counter + 1) (candidateName base counter)"
      using candidateName_inject[of counter _ base] that by auto
    with mem show ?thesis
      by (subst sub) (rule length_filter_less)
  qed
  with le show "((base, names, counter + 1), (base, names, counter))
      \<in> measure (\<lambda>(base, names, counter).
         (if counter = 0 then 1 else 0)
         + length (filter (\<lambda>n. \<exists>k\<ge>counter. n = candidateName base k) names))"
    by (cases "counter = 0") auto
qed

declare unusedCounter.simps [simp del]

section \<open>Application state and Command History (App)\<close>

text \<open>
  The state of \<open>App\<close> modelled here: the active project (\<open>projects.find\<close> by
  \<open>activeProjectId\<close>, \<open>None\<close> when there is none), the single error slot and the active
  tool. Every handler is a function from state to state and runs to completion. The
  argument \<open>now\<close> is the reading of \<open>Date.now()\<close> during the event (one reading per
  event).

  A handler is a closure over the \<open>activeProject\<close> of the render that created it. A
  handler that runs on an event of the current render reads the active project of the
  state it is applied to. The part of an asynchronous handler that runs after its
  \<open>await\<close> still reads the project of the render in which the handler was called: that
  project is the argument \<open>snapshot\<close>, while \<open>updateActiveProject\<close> (a functional update of
  \<open>projects\<close>) always changes the current state.
\<close>

record App =
  activeProject :: "Project option"
  error :: "string option"
  activeTool :: ActiveTool

text \<open>
  \<open>updateActiveProject(updates)\<close>: the fields of \<open>updates\<close> replace those of the active
  project, and \<open>lastModified\<close> is stamped.
\<close>

definition updateActiveProject :: "(Project \<Rightarrow> Project) \<Rightarrow> nat \<Rightarrow> App \<Rightarrow> App" where
  "updateActiveProject updates now a =
     a\<lparr>activeProject := map_option (\<lambda>p. (updates p)\<lparr>lastModified := now\<rparr>) (activeProject a)\<rparr>"

definition commitSchemaChange :: "Project option \<Rightarrow> Schema option \<Rightarrow> nat \<Rightarrow> App \<Rightarrow> App" where
  "commitSchemaChange snapshot newSchema now a =
     (case snapshot of
        None \<Rightarrow> a
      | Some p \<Rightarrow>
          updateActiveProject
            (\<lambda>q. q\<lparr>schema := newSchema,
                   undoStack := undoStack p @ [schema p],
                   redoStack := [],
                   ddl := (if newSchema = None then [] else ddl p)\<rparr>) now a)"

definition handleUndo :: "nat \<Rightarrow> App \<Rightarrow> App" where
  "handleUndo now a =
     (case activeProject a of
        None \<Rightarrow> a
      | Some p \<Rightarrow>
          if undoStack p = [] then a
          else
            let previousSchema = last (undoStack p) in
            updateActiveProject
              (\<lambda>q. q\<lparr>schema := previousSchema,
                     undoStack := butlast (undoStack p),
                     redoStack := schema p # redoStack p,
                     ddl := (if previousSchema = None then [] else ddl p)\<rparr>) now a)"

definition handleRedo :: "nat \<Rightarrow> App \<Rightarrow> App" where
  "handleRedo now a =
     (case activeProject a of
        None \<Rightarrow> a
      | Some p \<Rightarrow>
          (case redoStack p of
             [] \<Rightarrow> a
           | nextSchema # newRedoStack \<Rightarrow>
               updateActiveProject
                 (\<lambda>q. q\<lparr>schema := nextSchema,
                        undoStack := undoStack p @ [schema p],
                        redoStack := newRedoStack,
                        ddl := (if nextSchema = None then [] else ddl p)\<rparr>) now a))"

section \<open>Identity and reconciliation (reconcileSchemaIds)\<close>

text \<open>
  The module variable \<open>idCounter\<close> is threaded through: every function takes the counter
  and returns the new one. \<open>a || b\<close> on an optional identifier takes \<open>b\<close> when \<open>a\<close> is
  \<open>undefined\<close> or empty.
\<close>

definition orMint :: "string option \<Rightarrow> string \<Rightarrow> nat \<Rightarrow> string \<times> nat" where
  "orMint oldId minted counter =
     (case oldId of
        Some i \<Rightarrow> if i \<noteq> [] then (i, counter) else (minted, counter + 1)
      | None \<Rightarrow> (minted, counter + 1))"

definition mintTableId :: "string \<Rightarrow> nat \<Rightarrow> string" where
  "mintTableId n counter = ''table-'' @ replaceSpaces False n @ ''-'' @ decimal counter"

definition mintColumnId :: "string \<Rightarrow> string \<Rightarrow> nat \<Rightarrow> string" where
  "mintColumnId tableId n counter =
     ''col-'' @ tableId @ ''-'' @ replaceSpaces False n @ ''-'' @ decimal counter"

fun reconcileColumns :: "(string \<Rightarrow> Column option) \<Rightarrow> string \<Rightarrow> Column list \<Rightarrow> nat
    \<Rightarrow> Column list \<times> nat" where
  "reconcileColumns oldColumnsMap tableId [] counter = ([], counter)"
| "reconcileColumns oldColumnsMap tableId (newColumn # rest) counter =
     (let oldId = (case oldColumnsMap (cname newColumn) of None \<Rightarrow> None | Some oldColumn \<Rightarrow> cid oldColumn);
          (columnId, counter1) =
             orMint oldId (mintColumnId tableId (cname newColumn) counter) counter;
          (rest', counter2) = reconcileColumns oldColumnsMap tableId rest counter1
      in (newColumn\<lparr>cid := Some columnId\<rparr> # rest', counter2))"

definition reconcileTable :: "(string \<Rightarrow> Table option) \<Rightarrow> Table \<Rightarrow> nat \<Rightarrow> Table \<times> nat" where
  "reconcileTable oldTablesMap newTable counter =
     (let oldTable = oldTablesMap (tname newTable);
          oldId = (case oldTable of None \<Rightarrow> None | Some ot \<Rightarrow> tid ot);
          (tableId, counter1) = orMint oldId (mintTableId (tname newTable) counter) counter;
          oldColumnsMap =
             jsMap (case oldTable of None \<Rightarrow> [] | Some ot \<Rightarrow> map (\<lambda>c. (cname c, c)) (columns ot));
          (newColumns, counter2) = reconcileColumns oldColumnsMap tableId (columns newTable) counter1
      in (newTable\<lparr>tid := Some tableId,
                    tx := orElse (tx newTable) (case oldTable of None \<Rightarrow> None | Some ot \<Rightarrow> tx ot),
                    ty := orElse (ty newTable) (case oldTable of None \<Rightarrow> None | Some ot \<Rightarrow> ty ot),
                    columns := newColumns\<rparr>, counter2))"

fun reconcileTables :: "(string \<Rightarrow> Table option) \<Rightarrow> Table list \<Rightarrow> nat \<Rightarrow> Table list \<times> nat" where
  "reconcileTables oldTablesMap [] counter = ([], counter)"
| "reconcileTables oldTablesMap (newTable # rest) counter =
     (let (t', counter1) = reconcileTable oldTablesMap newTable counter;
          (rest', counter2) = reconcileTables oldTablesMap rest counter1
      in (t' # rest', counter2))"

definition reconcileSchemaIds :: "Schema \<Rightarrow> Schema \<Rightarrow> nat \<Rightarrow> Schema \<times> nat" where
  "reconcileSchemaIds newSchema oldSchema counter =
     (let oldTablesMap = jsMap (map (\<lambda>t. (tname t, t)) (tables oldSchema));
          (ts, counter') = reconcileTables oldTablesMap (tables newSchema) counter
      in (newSchema\<lparr>tables := ts\<rparr>, counter'))"

text \<open>\<open>initializeSchemaIds\<close>: every table and every column gets a minted identifier.\<close>

fun initializeColumns :: "string \<Rightarrow> Column list \<Rightarrow> nat \<Rightarrow> Column list \<times> nat" where
  "initializeColumns tableId [] counter = ([], counter)"
| "initializeColumns tableId (column # rest) counter =
     (let (rest', counter') = initializeColumns tableId rest (counter + 1)
      in (column\<lparr>cid := Some (mintColumnId tableId (cname column) counter)\<rparr> # rest', counter'))"

fun initializeTables :: "Table list \<Rightarrow> nat \<Rightarrow> Table list \<times> nat" where
  "initializeTables [] counter = ([], counter)"
| "initializeTables (t # rest) counter =
     (let tableId = mintTableId (tname t) counter;
          (cols, counter1) = initializeColumns tableId (columns t) (counter + 1);
          (rest', counter2) = initializeTables rest counter1
      in (t\<lparr>tid := Some tableId, columns := cols\<rparr> # rest', counter2))"

definition initializeSchemaIds :: "Schema \<Rightarrow> nat \<Rightarrow> Schema \<times> nat" where
  "initializeSchemaIds s counter =
     (let (ts, counter') = initializeTables (tables s) counter in (s\<lparr>tables := ts\<rparr>, counter'))"

section \<open>Schema mutation handlers (App)\<close>

text \<open>
  \<open>JSON.parse(JSON.stringify(schema))\<close> is a deep copy that shares nothing with the
  state. Strings, booleans, finite numbers, \<open>null\<close>, lists and absent properties come
  back as they were; a coordinate that is not-a-number comes back as \<open>null\<close>.
\<close>

definition jsonTable :: "Table \<Rightarrow> Table" where
  "jsonTable t = t\<lparr>tx := jsonCoord (tx t), ty := jsonCoord (ty t)\<rparr>"

definition jsonClone :: "Schema \<Rightarrow> Schema" where
  "jsonClone s = s\<lparr>tables := map jsonTable (tables s)\<rparr>"

text \<open>
  \<open>xs.find(p)\<close> returns the first match, and a later assignment through the found
  object changes that element of the copied list.
\<close>

fun updateFirst :: "('a \<Rightarrow> bool) \<Rightarrow> ('a \<Rightarrow> 'a) \<Rightarrow> 'a list \<Rightarrow> 'a list" where
  "updateFirst p f [] = []"
| "updateFirst p f (x # xs) = (if p x then f x # xs else x # updateFirst p f xs)"

text \<open>
  \<open>handleAddTable\<close>: \<open>position\<close> is the pointer position of the click (\<open>d3.pointer\<close>), a
  pair of finite numbers, or \<open>None\<close> when the handler is called without one.
\<close>

definition handleAddTable :: "(real \<times> real) option \<Rightarrow> nat \<Rightarrow> App \<Rightarrow> App" where
  "handleAddTable position now a =
     (case activeProject a of
        None \<Rightarrow> a
      | Some p \<Rightarrow>
          let currentSchema = (case schema p of None \<Rightarrow> \<lparr>tables = []\<rparr> | Some s \<Rightarrow> s);
              counter = unusedCounter ''new_table'' (map tname (tables currentSchema)) 1;
              newTableName = candidateName ''new_table'' counter;
              tableId = ''table-'' @ newTableName @ ''-'' @ decimal now;
              newTable = \<lparr>tid = Some tableId, tname = newTableName,
                 columns = [\<lparr>cid = Some (tableId @ ''-col-id''), cname = ''id'',
                              ctype = ''INTEGER'', isPrimaryKey = True, isForeignKey = False,
                              foreignKeyTable = None, foreignKeyColumn = None,
                              constraints = [''NOT NULL'']\<rparr>],
                 tx = map_option (\<lambda>pos. Num (fst pos)) position,
                 ty = map_option (\<lambda>pos. Num (snd pos)) position\<rparr>;
              updatedSchema = currentSchema\<lparr>tables := tables currentSchema @ [newTable]\<rparr>;
              a1 = (if messages p = []
                    then updateActiveProject
                           (\<lambda>q. q\<lparr>messages := [\<lparr>sender = Ai,
                               mtext = ''Started a new schema and added table '' @ dquote
                                       @ newTableName @ dquote @ ''.''\<rparr>]\<rparr>) now a
                    else a)
          in commitSchemaChange (Some p) (Some updatedSchema) now a1)"

text \<open>
  \<open>(sourceTable.x + targetTable.x) / 2\<close>: the midpoint of two numbers, and not-a-number
  as soon as one of the coordinates is \<open>undefined\<close> or not-a-number.
\<close>

definition midpoint :: "coord option \<Rightarrow> coord option \<Rightarrow> coord" where
  "midpoint u v =
     (case (toNumber u, toNumber v) of (Some m, Some n) \<Rightarrow> Num ((m + n) / 2) | _ \<Rightarrow> NaN)"

definition handleAddConnection :: "string \<Rightarrow> string \<Rightarrow> LinkType \<Rightarrow> nat \<Rightarrow> App \<Rightarrow> App" where
  "handleAddConnection sourceTableId targetTableId connType now a =
     (case activeProject a of
        None \<Rightarrow> a
      | Some p \<Rightarrow>
     (case schema p of
        None \<Rightarrow> a
      | Some s0 \<Rightarrow>
          let currentSchema = jsonClone s0 in
          (case (find (\<lambda>t. tid t = Some sourceTableId) (tables currentSchema),
                 find (\<lambda>t. tid t = Some targetTableId) (tables currentSchema)) of
             (Some sourceTable, Some targetTable) \<Rightarrow>
               (case connType of
                  OneToN \<Rightarrow>
                    (case find isPrimaryKey (columns targetTable) of
                       None \<Rightarrow>
                         a\<lparr>error := Some (''Cannot create connection: Target table '' @ dquote
                                           @ tname targetTable @ dquote @ '' has no primary key.'')\<rparr>
                     | Some targetPk \<Rightarrow>
                         let base = tname targetTable @ ''_id'';
                             fkColumnName = candidateName base
                                (unusedCounter base (map cname (columns sourceTable)) 1);
                             newFkColumn = \<lparr>cid = Some (''col-'' @ sourceTableId @ ''-''
                                                         @ fkColumnName @ ''-'' @ decimal now),
                                cname = fkColumnName, ctype = ctype targetPk,
                                isPrimaryKey = False, isForeignKey = True,
                                foreignKeyTable = Some (tname targetTable),
                                foreignKeyColumn = Some (cname targetPk), constraints = []\<rparr>
                         in commitSchemaChange (Some p)
                              (Some (currentSchema\<lparr>tables :=
                                 updateFirst (\<lambda>t. tid t = Some sourceTableId)
                                   (\<lambda>t. t\<lparr>columns := columns t @ [newFkColumn]\<rparr>)
                                   (tables currentSchema)\<rparr>)) now a)
                | NToN \<Rightarrow>
                    (case (find isPrimaryKey (columns sourceTable),
                           find isPrimaryKey (columns targetTable)) of
                       (Some sourcePk, Some targetPk) \<Rightarrow>
                         let base = tname sourceTable @ ''_'' @ tname targetTable;
                             junctionTableName = candidateName base
                                (unusedCounter base (map tname (tables currentSchema)) 1);
                             junctionTableId = ''table-'' @ junctionTableName @ ''-'' @ decimal now;
                             fkCol1 = \<lparr>cid = Some (''col-'' @ junctionTableId @ ''-''
                                                    @ tname sourceTable @ ''_id-'' @ decimal now),
                                cname = tname sourceTable @ ''_id'', ctype = ctype sourcePk,
                                isPrimaryKey = True, isForeignKey = True,
                                foreignKeyTable = Some (tname sourceTable),
                                foreignKeyColumn = Some (cname sourcePk),
                                constraints = [''NOT NULL'']\<rparr>;
                             fkCol2 = \<lparr>cid = Some (''col-'' @ junctionTableId @ ''-''
                                                    @ tname targetTable @ ''_id-'' @ decimal now),
                                cname = tname targetTable @ ''_id'', ctype = ctype targetPk,
                                isPrimaryKey = True, isForeignKey = True,
                                foreignKeyTable = Some (tname targetTable),
                                foreignKeyColumn = Some (cname targetPk),
                                constraints = [''NOT NULL'']\<rparr>;
                             junctionTable = \<lparr>tid = Some junctionTableId, tname = junctionTableName,
                                columns = [fkCol1, fkCol2],
                                tx = Some (midpoint (tx sourceTable) (tx targetTable)),
                                ty = Some (midpoint (ty sourceTable) (ty targetTable))\<rparr>
                         in commitSchemaChange (Some p)
                              (Some (currentSchema\<lparr>tables := tables currentSchema @ [junctionTable]\<rparr>))
                              now a
                     | _ \<Rightarrow>
                         a\<lparr>error := Some ''Cannot create N-N connection: Both tables must have a primary key.''\<rparr>))
           | _ \<Rightarrow> a\<lparr>error := Some ''Source or target table not found for connection.''\<rparr>)))"

definition renameForeignKeys :: "string \<Rightarrow> string \<Rightarrow> Table \<Rightarrow> Table" where
  "renameForeignKeys oldName newName t =
     t\<lparr>columns := map (\<lambda>c. if isForeignKey c \<and> foreignKeyTable c = Some oldName
                            then c\<lparr>foreignKeyTable := Some newName\<rparr> else c) (columns t)\<rparr>"

definition handleUpdateTable :: "string \<Rightarrow> string \<Rightarrow> nat \<Rightarrow> App \<Rightarrow> App" where
  "handleUpdateTable tableId newName now a =
     (case activeProject a of
        None \<Rightarrow> a
      | Some p \<Rightarrow>
     (case schema p of
        None \<Rightarrow> a
      | Some s \<Rightarrow>
          if \<exists>t\<in>set (tables s). tname t = newName \<and> tid t \<noteq> Some tableId
          then a\<lparr>error := Some (''A table with the name '' @ dquote @ newName @ dquote
                                 @ '' already exists.'')\<rparr>
          else
            (case find (\<lambda>t. tid t = Some tableId) (tables s) of
               None \<Rightarrow> a
             | Some found \<Rightarrow>
                 let oldName = tname found in
                 if oldName = [] then a
                 else
                   let updatedSchema = jsonClone s;
                       renamed = updateFirst (\<lambda>t. tid t = Some tableId) (\<lambda>t. t\<lparr>tname := newName\<rparr>)
                                   (tables updatedSchema)
                   in commitSchemaChange (Some p)
                        (Some (updatedSchema\<lparr>tables := map (renameForeignKeys oldName newName) renamed\<rparr>))
                        now a)))"


text \<open>
  The nested \<open>for\<close> loops of \<open>handleDeleteColumn\<close> visit the (table, column) pairs in
  order and stop at the first column that references the one to delete.
\<close>

definition columnPairs :: "Schema \<Rightarrow> (Table \<times> Column) list" where
  "columnPairs s = concat (map (\<lambda>t. map (\<lambda>c. (t, c)) (columns t)) (tables s))"

definition handleDeleteColumn :: "string \<Rightarrow> string \<Rightarrow> nat \<Rightarrow> App \<Rightarrow> App" where
  "handleDeleteColumn tableId columnId now a =
     (case activeProject a of
        None \<Rightarrow> a
      | Some p \<Rightarrow>
     (case schema p of
        None \<Rightarrow> a
      | Some s \<Rightarrow>
          (case find (\<lambda>t. tid t = Some tableId) (tables s) of
             None \<Rightarrow> a
           | Some tableToDeleteFrom \<Rightarrow>
               (case find (\<lambda>c. cid c = Some columnId) (columns tableToDeleteFrom) of
                  None \<Rightarrow> a
                | Some columnToDelete \<Rightarrow>
                    (case find (\<lambda>(t, c). isForeignKey c
                                  \<and> foreignKeyTable c = Some (tname tableToDeleteFrom)
                                  \<and> foreignKeyColumn c = Some (cname columnToDelete))
                            (columnPairs s) of
                       Some (t, c) \<Rightarrow>
                         a\<lparr>error := Some (''Cannot delete column '' @ dquote @ cname columnToDelete
                                           @ dquote @ ''. It is referenced by '' @ dquote
                                           @ tname t @ ''.'' @ cname c @ dquote @ ''.'')\<rparr>
                     | None \<Rightarrow>
                         let updatedTables =
                               map (\<lambda>t. if tid t = Some tableId
                                         then t\<lparr>columns := filter (\<lambda>c. cid c \<noteq> Some columnId) (columns t)\<rparr>
                                         else t) (tables s)
                         in commitSchemaChange (Some p) (Some (s\<lparr>tables := updatedTables\<rparr>)) now a)))))"

text \<open>\<open>confirmed\<close> is the answer of \<open>window.confirm\<close>.\<close>

definition handleDeleteTable :: "string \<Rightarrow> bool \<Rightarrow> nat \<Rightarrow> App \<Rightarrow> App" where
  "handleDeleteTable tableId confirmed now a =
     (case activeProject a of
        None \<Rightarrow> a
      | Some p \<Rightarrow>
     (case schema p of
        None \<Rightarrow> a
      | Some s \<Rightarrow>
          (case find (\<lambda>t. tid t = Some tableId) (tables s) of
             None \<Rightarrow> a
           | Some tableToDelete \<Rightarrow>
               if \<not> confirmed then a
               else
                 let remainingTables = filter (\<lambda>t. tid t \<noteq> Some tableId) (tables s);
                     cleanedTables =
                       map (\<lambda>t. t\<lparr>columns := filter (\<lambda>c. \<not> (isForeignKey c
                                     \<and> foreignKeyTable c = Some (tname tableToDelete))) (columns t)\<rparr>)
                           remainingTables
                 in commitSchemaChange (Some p) (Some (s\<lparr>tables := cleanedTables\<rparr>)) now a)))"

section \<open>The asynchronous handler handleSendMessage\<close>

text \<open>
  \<open>handleSendMessage\<close> in two events. The first runs up to the \<open>await\<close>: it appends the
  user's message and clears the error slot. The second runs when the call to the AI
  collaborator settles, with \<open>outcome\<close> the schema it returned (\<open>None\<close> when the call
  failed): it reads \<open>activeProject\<close> and calls \<open>commitSchemaChange\<close> from the closure of the
  first event, so \<open>snapshot\<close> is the active project of the state the first event was
  applied to, and \<open>a\<close> is the state at the time the call settles (with the same project
  active). \<open>idCounter\<close> is the module
  variable, returned updated. (\<open>handleImportDdl\<close> commits after its \<open>await\<close> in the same
  way.) While the call is pending only the toolbox and the right panel are disabled; the
  handlers reached from the graph, the left panel and the keyboard still run.
\<close>

definition handleSendMessageStart :: "string \<Rightarrow> nat \<Rightarrow> App \<Rightarrow> App" where
  "handleSendMessageStart userMessage now a =
     (case activeProject a of
        None \<Rightarrow> a
      | Some p \<Rightarrow>
          (updateActiveProject
             (\<lambda>q. q\<lparr>messages := messages p @ [\<lparr>sender = User, mtext = userMessage\<rparr>]\<rparr>) now a)
          \<lparr>error := None\<rparr>)"

definition handleSendMessageSettled ::
    "Project option \<Rightarrow> string \<Rightarrow> Schema option \<Rightarrow> nat \<Rightarrow> nat \<Rightarrow> App \<Rightarrow> App \<times> nat" where
  "handleSendMessageSettled snapshot userMessage outcome idCounter now a =
     (case snapshot of
        None \<Rightarrow> (a, idCounter)
      | Some p \<Rightarrow>
          let newMessages = messages p @ [\<lparr>sender = User, mtext = userMessage\<rparr>] in
          (case outcome of
             None \<Rightarrow>
               let errorMessage = ''Sorry, I couldn'' @ apostrophe
                     @ ''t apply that change. Please try rephrasing your request.''
               in (updateActiveProject
                     (\<lambda>q. q\<lparr>messages := newMessages @ [\<lparr>sender = Ai, mtext = errorMessage\<rparr>]\<rparr>) now
                     (a\<lparr>error := Some errorMessage\<rparr>), idCounter)
           | Some fromAI \<Rightarrow>
               (case schema p of
                  Some oldSchema \<Rightarrow>
                    let (reconciledSchema, counter') = reconcileSchemaIds fromAI oldSchema idCounter
                    in (updateActiveProject
                          (\<lambda>q. q\<lparr>messages := newMessages @ [\<lparr>sender = Ai,
                              mtext = ''Schema updated based on your request. What'' @ apostrophe
                                      @ ''s next?''\<rparr>]\<rparr>) now
                          (commitSchemaChange (Some p) (Some reconciledSchema) now a), counter')
                | None \<Rightarrow>
                    let (schemaWithIds, counter') = initializeSchemaIds fromAI idCounter
                    in (updateActiveProject
                          (\<lambda>q. q\<lparr>messages := newMessages @ [\<lparr>sender = Ai,
                              mtext = ''I'' @ apostrophe
                                      @ ''ve created a schema for you! How would you like to refine it?''\<rparr>]\<rparr>) now
                          (commitSchemaChange (Some p) (Some schemaWithIds) now a), counter'))))"

section \<open>Interaction state (SchemaGraph)\<close>

text \<open>
  The state of \<open>SchemaGraph\<close> next to the state of \<open>App\<close> it reads and writes through
  its props: the source of a pending connection and the table whose name is being edited.
\<close>

record Editor =
  app :: App
  connectionSource :: "string option"
  editingTableId :: "string option"

text \<open>\<open>setActiveTool\<close>, with the effect that clears the source whenever the tool changes.\<close>

definition setActiveTool :: "ActiveTool \<Rightarrow> Editor \<Rightarrow> Editor" where
  "setActiveTool tool e =
     e\<lparr>app := (app e)\<lparr>activeTool := tool\<rparr>,
       connectionSource := (if tool = activeTool (app e) then connectionSource e else None)\<rparr>"

definition isConnectionTool :: "ActiveTool \<Rightarrow> bool" where
  "isConnectionTool tool = (tool = AddConnection_1_n \<or> tool = AddConnection_n_n)"

text \<open>The click handler of a node whose identifier is \<open>nodeIdent\<close>.\<close>

definition nodeClick :: "string \<Rightarrow> nat \<Rightarrow> Editor \<Rightarrow> Editor" where
  "nodeClick nodeIdent now e =
     (if isConnectionTool (activeTool (app e)) then
        (if \<not> truthy (connectionSource e) then e\<lparr>connectionSource := Some nodeIdent\<rparr>
         else
           let connType = (if activeTool (app e) = AddConnection_n_n then NToN else OneToN);
               e1 = (case connectionSource e of
                       Some src \<Rightarrow>
                         if src \<noteq> nodeIdent
                         then e\<lparr>app := handleAddConnection src nodeIdent connType now (app e)\<rparr>
                         else e
                     | None \<Rightarrow> e)
           in setActiveTool Select (e1\<lparr>connectionSource := None\<rparr>))
      else e)"


section \<open>Sequences of events\<close>

text \<open>
  A run of commits, each with the schema it commits and its time stamp and each made by
  a handler of the current render (its snapshot is the project of the state it is applied
  to), and a run of undo events, one per time stamp.
\<close>

fun commitAll :: "(Schema option \<times> nat) list \<Rightarrow> App \<Rightarrow> App" where
  "commitAll [] a = a"
| "commitAll ((newSchema, now) # rest) a =
     commitAll rest (commitSchemaChange (activeProject a) newSchema now a)"

fun undoAll :: "nat list \<Rightarrow> App \<Rightarrow> App" where
  "undoAll [] a = a"
| "undoAll (now # rest) a = undoAll rest (handleUndo now a)"

section \<open>Example schemas\<close>

definition students :: Table where
  "students = \<lparr>tid = Some ''t-students'', tname = ''students'',
     columns = [\<lparr>cid = Some ''c-students-id'', cname = ''id'', ctype = ''INTEGER'',
                  isPrimaryKey = True, isForeignKey = False, foreignKeyTable = None,
                  foreignKeyColumn = None, constraints = [''NOT NULL'']\<rparr>],
     tx = Some (Num 10), ty = Some (Num 20)\<rparr>"

definition courses :: Table where
  "courses = \<lparr>tid = Some ''t-courses'', tname = ''courses'',
     columns = [\<lparr>cid = Some ''c-courses-id'', cname = ''id'', ctype = ''INTEGER'',
                  isPrimaryKey = True, isForeignKey = False, foreignKeyTable = None,
                  foreignKeyColumn = None, constraints = [''NOT NULL'']\<rparr>],
     tx = None, ty = None\<rparr>"

definition keyColumn :: "string \<Rightarrow> string \<Rightarrow> Column" where
  "keyColumn n tgt = \<lparr>cid = Some (''c-'' @ n), cname = n, ctype = ''INTEGER'',
     isPrimaryKey = True, isForeignKey = True, foreignKeyTable = Some tgt,
     foreignKeyColumn = Some ''id'', constraints = [''NOT NULL'']\<rparr>"

definition enrolment :: Table where
  "enrolment = \<lparr>tid = Some ''t-enrolment'', tname = ''students_courses'',
     columns = [keyColumn ''students_id'' ''students'', keyColumn ''courses_id'' ''courses''],
     tx = None, ty = None\<rparr>"

definition triple :: Table where
  "triple = \<lparr>tid = Some ''t-triple'', tname = ''triple'',
     columns = [keyColumn ''students_id'' ''students'', keyColumn ''courses_id'' ''courses'',
                keyColumn ''mentor_id'' ''students''],
     tx = None, ty = None\<rparr>"

definition campus :: Schema where
  "campus = \<lparr>tables = [students, courses, enrolment, triple]\<rparr>"

definition tripleShared :: Table where
  "tripleShared = triple\<lparr>tid := Some ''t-enrolment''\<rparr>"

definition campusSharedId :: Schema where
  "campusSharedId = \<lparr>tables = [students, courses, enrolment, tripleShared]\<rparr>"

text \<open>
  A junction table with a target that names no table; a table without foreign keys
  that carries its identifier; a second junction table that names the first as a target.
\<close>

definition orphan :: Table where
  "orphan = \<lparr>tid = Some ''t-orphan'', tname = ''students_ghosts'',
     columns = [keyColumn ''students_id'' ''students'', keyColumn ''ghosts_id'' ''ghosts''],
     tx = None, ty = None\<rparr>"

definition campusOrphan :: Schema where
  "campusOrphan = \<lparr>tables = [students, courses, orphan]\<rparr>"

definition coursesShared :: Table where
  "coursesShared = courses\<lparr>tid := Some ''t-orphan''\<rparr>"

definition campusClash :: Schema where
  "campusClash = \<lparr>tables = [students, coursesShared, orphan]\<rparr>"

definition second :: Table where
  "second = \<lparr>tid = Some ''t-second'', tname = ''ghosts_students'',
     columns = [keyColumn ''link_id'' ''students_ghosts'', keyColumn ''students_id'' ''students''],
     tx = None, ty = None\<rparr>"

definition campusSecond :: Schema where
  "campusSecond = \<lparr>tables = [students, courses, orphan, second]\<rparr>"

text \<open>A stored table and two regenerated versions of it, one of them with a position.\<close>

definition storedUsers :: Table where
  "storedUsers = \<lparr>tid = Some ''table-users-0'', tname = ''users'',
     columns = [\<lparr>cid = Some ''col-table-users-0-id-1'', cname = ''id'', ctype = ''INTEGER'',
                  isPrimaryKey = True, isForeignKey = False, foreignKeyTable = None,
                  foreignKeyColumn = None, constraints = [''NOT NULL'']\<rparr>],
     tx = Some (Num 5), ty = Some (Num 6)\<rparr>"

definition regeneratedUsers :: Table where
  "regeneratedUsers = \<lparr>tid = None, tname = ''users'',
     columns = [\<lparr>cid = None, cname = ''id'', ctype = ''INTEGER'',
                  isPrimaryKey = True, isForeignKey = False, foreignKeyTable = None,
                  foreignKeyColumn = None, constraints = [''NOT NULL'']\<rparr>,
                \<lparr>cid = None, cname = ''e mail'', ctype = ''TEXT'',
                  isPrimaryKey = False, isForeignKey = False, foreignKeyTable = None,
                  foreignKeyColumn = None, constraints = []\<rparr>],
     tx = None, ty = None\<rparr>"

definition placedUsers :: Table where
  "placedUsers = regeneratedUsers\<lparr>tx := Some (Num 1), ty := Some (Num 2)\<rparr>"

text \<open>A table without a primary key, and projects and editor states over the examples.\<close>

definition memos :: Table where
  "memos = \<lparr>tid = Some ''t-notes'', tname = ''notes'',
     columns = [\<lparr>cid = Some ''c-notes-body'', cname = ''body'', ctype = ''TEXT'',
                  isPrimaryKey = False, isForeignKey = False, foreignKeyTable = None,
                  foreignKeyColumn = None, constraints = []\<rparr>],
     tx = None, ty = None\<rparr>"

definition registry :: Schema where
  "registry = \<lparr>tables = [students, enrolment, memos]\<rparr>"

text \<open>
  Two tables, the second without a position, and the schema after an N-to-N connection
  between them made at time 500.
\<close>

definition pair :: Schema where
  "pair = \<lparr>tables = [students, courses]\<rparr>"

definition joined :: Table where
  "joined = \<lparr>tid = Some ''table-students_courses-500'', tname = ''students_courses'',
     columns = [\<lparr>cid = Some ''col-table-students_courses-500-students_id-500'',
                  cname = ''students_id'', ctype = ''INTEGER'',
                  isPrimaryKey = True, isForeignKey = True, foreignKeyTable = Some ''students'',
                  foreignKeyColumn = Some ''id'', constraints = [''NOT NULL'']\<rparr>,
                \<lparr>cid = Some ''col-table-students_courses-500-courses_id-500'',
                  cname = ''courses_id'', ctype = ''INTEGER'',
                  isPrimaryKey = True, isForeignKey = True, foreignKeyTable = Some ''courses'',
                  foreignKeyColumn = Some ''id'', constraints = [''NOT NULL'']\<rparr>],
     tx = Some NaN, ty = Some NaN\<rparr>"

definition projectOf :: "Schema option \<Rightarrow> Project" where
  "projectOf s = \<lparr>pid = ''proj-1'', pname = ''My First Schema'', schema = s,
     messages = [], ddl = ''CREATE TABLE students (id INTEGER);'',
     undoStack = [None], redoStack = [], lastModified = 100\<rparr>"

definition appOf :: "Schema option \<Rightarrow> ActiveTool \<Rightarrow> App" where
  "appOf s tool = \<lparr>activeProject = Some (projectOf s), error = None, activeTool = tool\<rparr>"

definition pendingConnection :: Editor where
  "pendingConnection = \<lparr>app = appOf (Some campus) AddConnection_1_n,
     connectionSource = Some ''t-students'', editingTableId = None\<rparr>"

text \<open>The column \<open>id\<close> that \<open>handleAddTable\<close> gives the table with identifier \<open>tableId\<close>.\<close>

definition idColumn :: "string \<Rightarrow> Column" where
  "idColumn tableId = \<lparr>cid = Some (tableId @ ''-col-id''), cname = ''id'', ctype = ''INTEGER'',
     isPrimaryKey = True, isForeignKey = False, foreignKeyTable = None, foreignKeyColumn = None,
     constraints = [''NOT NULL'']\<rparr>"

text \<open>
  A stored schema whose table \<open>users\<close> was renamed \<open>people\<close>, and a regenerated schema
  with the tables \<open>people\<close> and \<open>users\<close>.
\<close>

definition peopleStored :: Schema where
  "peopleStored = \<lparr>tables = [storedUsers\<lparr>tname := ''people''\<rparr>]\<rparr>"

definition peopleAndUsers :: Schema where
  "peopleAndUsers = \<lparr>tables =
     [\<lparr>tid = None, tname = ''people'', columns = [(idColumn [])\<lparr>cid := None\<rparr>], tx = None, ty = None\<rparr>,
      \<lparr>tid = None, tname = ''users'', columns = [(idColumn [])\<lparr>cid := None\<rparr>], tx = None, ty = None\<rparr>]\<rparr>"

text \<open>The schema reconciliation makes of the two.\<close>

definition twins :: Schema where
  "twins = \<lparr>tables =
     [\<lparr>tid = Some ''table-users-0'', tname = ''people'',
        columns = [(idColumn [])\<lparr>cid := Some ''col-table-users-0-id-1''\<rparr>],
        tx = Some (Num 5), ty = Some (Num 6)\<rparr>,
      \<lparr>tid = Some ''table-users-0'', tname = ''users'',
        columns = [(idColumn [])\<lparr>cid := Some ''col-table-users-0-id-1''\<rparr>],
        tx = None, ty = None\<rparr>]\<rparr>"

definition linked :: App where
  "linked = handleAddConnection ''t-students'' ''t-courses'' NToN 500 (appOf (Some pair) Select)"

text \<open>
  A request to the AI collaborator made on the project of \<open>campus\<close>; a rename made on the
  graph while the request is pending; and the state after the request settled with a
  one-table schema, its commit reading the project of the render of the request.
\<close>

definition asked :: App where
  "asked = handleSendMessageStart ''add a table of users'' 101 (appOf (Some campus) Select)"

definition edited :: App where
  "edited = handleUpdateTable ''t-students'' ''pupils'' 102 asked"

definition settled :: App where
  "settled = fst (handleSendMessageSettled (activeProject (appOf (Some campus) Select))
                    ''add a table of users'' (Some \<lparr>tables = [regeneratedUsers]\<rparr>) 0 103 edited)"

lemmas example_defs = students_def courses_def keyColumn_def enrolment_def triple_def
  campus_def tripleShared_def campusSharedId_def
  orphan_def campusOrphan_def coursesShared_def campusClash_def second_def campusSecond_def
  pair_def joined_def
  storedUsers_def regeneratedUsers_def placedUsers_def
  memos_def registry_def projectOf_def appOf_def pendingConnection_def
  idColumn_def peopleStored_def peopleAndUsers_def twins_def

lemmas derive_defs = derive_def junctionTableIds_def setAdd_def isJunction_def junctionEdge_def
  junctionEdgeOf_def tableMapGet_def tableMap_def jsMap_def foreignKeyLinks_def columnLink_def
  truthy_def finalNodes_def

section \<open>The Relationship Deriver\<close>


















lemma campus_derive:
  "derive (Some campus) = Inr \<lparr>nodes = [mkNode students, mkNode courses, mkNode triple],
     links = [\<lparr>source = Some ''t-students'', target = Some ''t-courses'', linkType = NToN\<rparr>,
              \<lparr>source = Some ''t-triple'', target = Some ''t-students'', linkType = OneToN\<rparr>,
              \<lparr>source = Some ''t-triple'', target = Some ''t-courses'', linkType = OneToN\<rparr>,
              \<lparr>source = Some ''t-triple'', target = Some ''t-students'', linkType = OneToN\<rparr>]\<rparr>"
  by (simp add: derive_defs example_defs)






text \<open>
  Identifiers can repeat. \<open>idCounter\<close> starts at 0 with every page load and a rename keeps
  the identifier, so after \<open>users\<close> was renamed \<open>people\<close> reconciliation mints for a new
  table \<open>users\<close> the identifier the old one still has.
\<close>

lemma reconcile_repeats_identifier:
  "reconcileSchemaIds peopleAndUsers peopleStored 0 = (twins, 2)
   \<and> map tid (tables twins) = [Some ''table-users-0'', Some ''table-users-0'']"
  by (simp add: reconcileSchemaIds_def reconcileTable_def jsMap_def orMint_def mintColumnId_def
      mintTableId_def isSpace_def decimal.simps digitChar_def orElse_def nullish_def example_defs)


section \<open>The JSON round trip\<close>

lemma jsonTable_fields [simp]:
  "tid (jsonTable t) = tid t" "tname (jsonTable t) = tname t" "columns (jsonTable t) = columns t"
  "tx (jsonTable t) = jsonCoord (tx t)" "ty (jsonTable t) = jsonCoord (ty t)"
  by (simp_all add: jsonTable_def)

lemma jsonCoord_id: "u \<noteq> Some NaN \<Longrightarrow> jsonCoord u = u"
  by (simp add: jsonCoord_def)

lemma jsonTable_id: "tx t \<noteq> Some NaN \<Longrightarrow> ty t \<noteq> Some NaN \<Longrightarrow> jsonTable t = t"
  by (simp add: jsonTable_def jsonCoord_def)

lemma jsonClone_id:
  "\<forall>t\<in>set (tables s). tx t \<noteq> Some NaN \<and> ty t \<noteq> Some NaN \<Longrightarrow> jsonClone s = s"
  by (simp add: jsonClone_def jsonTable_id map_idI)

lemma find_map_preserving:
  "(\<And>x. P (g x) = P x) \<Longrightarrow> find P (map g xs) = map_option g (find P xs)"
  by (induction xs) simp_all

lemma jsonClone_find:
  "find (\<lambda>t. tid t = k) (tables (jsonClone s)) = map_option jsonTable (find (\<lambda>t. tid t = k) (tables s))"
  by (simp add: jsonClone_def find_map_preserving)

lemma jsonClone_names: "map tname (tables (jsonClone s)) = map tname (tables s)"
  by (simp add: jsonClone_def)

section \<open>Command History\<close>

lemma commitSchemaChange_Some:
  "activeProject a = Some q \<Longrightarrow>
   activeProject (commitSchemaChange (Some p) n now a)
     = Some (q\<lparr>schema := n, undoStack := undoStack p @ [schema p], redoStack := [],
               ddl := (if n = None then [] else ddl p), lastModified := now\<rparr>)"
  by (simp add: commitSchemaChange_def updateActiveProject_def)

lemma handleUndo_Some:
  "activeProject a = Some p \<Longrightarrow> undoStack p \<noteq> [] \<Longrightarrow>
   activeProject (handleUndo now a)
     = Some (p\<lparr>schema := last (undoStack p), undoStack := butlast (undoStack p),
               redoStack := schema p # redoStack p,
               ddl := (if last (undoStack p) = None then [] else ddl p), lastModified := now\<rparr>)"
  by (simp add: handleUndo_def updateActiveProject_def Let_def)

lemma handleRedo_Some:
  "activeProject a = Some p \<Longrightarrow> redoStack p = n # rest \<Longrightarrow>
   activeProject (handleRedo now a)
     = Some (p\<lparr>schema := n, undoStack := undoStack p @ [schema p], redoStack := rest,
               ddl := (if n = None then [] else ddl p), lastModified := now\<rparr>)"
  by (simp add: handleRedo_def updateActiveProject_def)

lemma commitAll_history:
  "activeProject a = Some p \<Longrightarrow>
   \<exists>q. activeProject (commitAll cs a) = Some q
      \<and> undoStack q = undoStack p @ butlast (schema p # map fst cs)
      \<and> schema q = last (schema p # map fst cs)
      \<and> redoStack q = (if cs = [] then redoStack p else [])"
proof (induction cs arbitrary: a p)
  case Nil
  then show ?case by simp
next
  case (Cons c cs)
  obtain n now where c: "c = (n, now)" by (cases c)
  let ?p1 = "p\<lparr>schema := n, undoStack := undoStack p @ [schema p], redoStack := [],
               ddl := (if n = None then [] else ddl p), lastModified := now\<rparr>"
  have "activeProject (commitSchemaChange (Some p) n now a) = Some ?p1"
    using Cons.prems by (rule commitSchemaChange_Some)
  from Cons.IH[OF this] obtain q where
    q: "activeProject (commitAll cs (commitSchemaChange (Some p) n now a)) = Some q"
       "undoStack q = undoStack ?p1 @ butlast (schema ?p1 # map fst cs)"
       "schema q = last (schema ?p1 # map fst cs)"
       "redoStack q = (if cs = [] then redoStack ?p1 else [])"
    by blast
  then show ?case using c Cons.prems by (cases cs) auto
qed

lemma undoAll_history:
  "activeProject b = Some q \<Longrightarrow> undoStack q = base @ pushed \<Longrightarrow> length pushed = length us \<Longrightarrow>
   \<exists>r. activeProject (undoAll us b) = Some r
      \<and> undoStack r = base
      \<and> schema r = hd (pushed @ [schema q])
      \<and> redoStack r = tl (pushed @ [schema q]) @ redoStack q"
proof (induction us arbitrary: b q pushed)
  case Nil
  then show ?case by simp
next
  case (Cons now us)
  from Cons.prems(3) obtain front v where pv: "pushed = front @ [v]"
    by (cases pushed rule: rev_cases) auto
  let ?q1 = "q\<lparr>schema := last (undoStack q), undoStack := butlast (undoStack q),
               redoStack := schema q # redoStack q,
               ddl := (if last (undoStack q) = None then [] else ddl q), lastModified := now\<rparr>"
  have ne: "undoStack q \<noteq> []" using Cons.prems(2) pv by simp
  have s1: "activeProject (handleUndo now b) = Some ?q1"
    using Cons.prems(1) ne by (rule handleUndo_Some)
  have u1: "undoStack ?q1 = base @ front"
    using Cons.prems(2) pv by (simp add: butlast_append)
  have l1: "length front = length us" using Cons.prems(3) pv by simp
  from Cons.IH[OF s1 u1 l1] obtain r where
    r: "activeProject (undoAll us (handleUndo now b)) = Some r" "undoStack r = base"
       "schema r = hd (front @ [schema ?q1])"
       "redoStack r = tl (front @ [schema ?q1]) @ redoStack ?q1"
    by blast
  have v: "schema ?q1 = v" using Cons.prems(2) pv by simp
  from r v pv show ?case by (cases front) auto
qed

text \<open>A rename that passes the checks of \<open>handleUpdateTable\<close> is one commit.\<close>

lemma handleUpdateTable_commit:
  assumes ap: "activeProject a = Some p" and sp: "schema p = Some s"
    and free: "\<not> (\<exists>t\<in>set (tables s). tname t = newName \<and> tid t \<noteq> Some tableId)"
    and found: "find (\<lambda>t. tid t = Some tableId) (tables s) = Some renamed"
    and ne: "tname renamed \<noteq> []"
  shows "handleUpdateTable tableId newName now a
      = commitSchemaChange (Some p)
          (Some ((jsonClone s)\<lparr>tables := map (renameForeignKeys (tname renamed) newName)
               (updateFirst (\<lambda>t. tid t = Some tableId) (\<lambda>t. t\<lparr>tname := newName\<rparr>)
                  (tables (jsonClone s)))\<rparr>)) now a"
proof -
  have c: "(\<exists>t\<in>set (tables s). tname t = newName \<and> tid t \<noteq> Some tableId) \<longleftrightarrow> False"
    using free by blast
  show ?thesis using ap sp found ne by (simp add: handleUpdateTable_def c Let_def)
qed

text \<open>
  Commits made by handlers of the current render. For a project \<open>p\<close> and any run \<open>cs\<close> of
  such commits, as many undo events as there were commits restore the schema of \<open>p\<close> (and
  its undo stack); a redo right after an undo that had something to undo restores the
  schema, the undo stack and the redo stack from before the undo; and a commit after an
  undo leaves the redo stack empty, in particular where the undo had put the undone schema
  on it.
\<close>

lemma current_render_history:
  assumes ap: "activeProject a = Some p"
  shows "(length us = length cs \<longrightarrow>
            (\<exists>r. activeProject (undoAll us (commitAll cs a)) = Some r
                \<and> schema r = schema p \<and> undoStack r = undoStack p))
       \<and> (undoStack p \<noteq> [] \<longrightarrow>
            (\<exists>r. activeProject (handleRedo t2 (handleUndo t1 a)) = Some r
                \<and> schema r = schema p \<and> undoStack r = undoStack p \<and> redoStack r = redoStack p))
       \<and> (\<exists>q r. activeProject (handleUndo t1 a) = Some q
                \<and> activeProject (commitSchemaChange (Some q) n t2 (handleUndo t1 a)) = Some r
                \<and> (undoStack p \<noteq> [] \<longrightarrow> redoStack q = schema p # redoStack p)
                \<and> schema r = n \<and> redoStack r = [])"
proof (intro conjI impI)
  assume len: "length us = length cs"
  from commitAll_history[OF ap, of cs] obtain q where
    q: "activeProject (commitAll cs a) = Some q"
       "undoStack q = undoStack p @ butlast (schema p # map fst cs)"
       "schema q = last (schema p # map fst cs)" by blast
  have l: "length (butlast (schema p # map fst cs)) = length us" using len by simp
  from undoAll_history[OF q(1) q(2) l] obtain r where
    r: "activeProject (undoAll us (commitAll cs a)) = Some r" "undoStack r = undoStack p"
       "schema r = hd (butlast (schema p # map fst cs) @ [schema q])" by blast
  have "butlast (schema p # map fst cs) @ [schema q] = schema p # map fst cs"
    unfolding q(3) by (rule append_butlast_last_id) simp
  with r show "\<exists>r. activeProject (undoAll us (commitAll cs a)) = Some r
                \<and> schema r = schema p \<and> undoStack r = undoStack p" by simp
next
  assume ne: "undoStack p \<noteq> []"
  let ?q = "p\<lparr>schema := last (undoStack p), undoStack := butlast (undoStack p),
               redoStack := schema p # redoStack p,
               ddl := (if last (undoStack p) = None then [] else ddl p), lastModified := t1\<rparr>"
  have u: "activeProject (handleUndo t1 a) = Some ?q" using ap ne by (rule handleUndo_Some)
  have "redoStack ?q = schema p # redoStack p" by simp
  from handleRedo_Some[OF u this, of t2] ne
  show "\<exists>r. activeProject (handleRedo t2 (handleUndo t1 a)) = Some r
                \<and> schema r = schema p \<and> undoStack r = undoStack p \<and> redoStack r = redoStack p"
    by simp
next
  show "\<exists>q r. activeProject (handleUndo t1 a) = Some q
                \<and> activeProject (commitSchemaChange (Some q) n t2 (handleUndo t1 a)) = Some r
                \<and> (undoStack p \<noteq> [] \<longrightarrow> redoStack q = schema p # redoStack p)
                \<and> schema r = n \<and> redoStack r = []"
  proof (cases "undoStack p = []")
    case True
    then have "handleUndo t1 a = a" using ap by (simp add: handleUndo_def)
    with ap True commitSchemaChange_Some[OF ap, of p n t2] show ?thesis by simp
  next
    case False
    from handleUndo_Some[OF ap False, of t1] obtain q where
      q: "activeProject (handleUndo t1 a) = Some q" "redoStack q = schema p # redoStack p" by simp
    from commitSchemaChange_Some[OF q(1), of q n t2] q show ?thesis by simp
  qed
qed

text \<open>
  Claim C2 fails for a commit made after an \<open>await\<close>. A message is sent on the project of
  \<open>campus\<close> (schema \<open>campus\<close>, one entry on the undo stack); while the AI call is pending the
  table \<open>students\<close> is renamed on the graph, which commits; then the call settles and
  \<open>handleSendMessage\<close> commits the reconciled schema, pushing the schema and the undo stack
  of the render in which the message was sent. The two commits leave the undo stack one
  entry longer, not two: the renamed schema is on neither stack, and two undo events end
  at the schema \<open>null\<close> with an empty undo stack, not at \<open>campus\<close>.
\<close>

theorem stale_commit_loses_history:
  "map_option schema (activeProject (appOf (Some campus) Select)) = Some (Some campus)
   \<and> map_option undoStack (activeProject (appOf (Some campus) Select)) = Some [None]
   \<and> map_option undoStack (activeProject asked) = Some [None]
   \<and> map_option undoStack (activeProject edited) = Some [None, Some campus]
   \<and> map_option schema (activeProject edited) \<noteq> Some (Some campus)
   \<and> map_option undoStack (activeProject settled) = Some [None, Some campus]
   \<and> map_option schema (activeProject settled) \<noteq> map_option schema (activeProject edited)
   \<and> map_option schema (activeProject (undoAll [104] settled)) = Some (Some campus)
   \<and> map_option schema (activeProject (undoAll [104, 105] settled)) = Some None
   \<and> map_option undoStack (activeProject (undoAll [104, 105] settled)) = Some []
   \<and> map_option redoStack (activeProject (undoAll [104, 105] settled))
       = Some [Some campus, schema (the (activeProject settled))]"
proof -
  let ?p0 = "projectOf (Some campus)"
  let ?msg = "\<lparr>sender = User, mtext = ''add a table of users''\<rparr>"
  have a0: "activeProject (appOf (Some campus) Select) = Some ?p0" by (simp add: appOf_def)
  have a1: "activeProject asked = Some (?p0\<lparr>messages := [?msg], lastModified := 101\<rparr>)"
    by (simp add: asked_def handleSendMessageStart_def updateActiveProject_def appOf_def
        projectOf_def)
  let ?p1 = "?p0\<lparr>messages := [?msg], lastModified := 101\<rparr>"
  let ?renamed = "(jsonClone campus)\<lparr>tables := map (renameForeignKeys (tname students) ''pupils'')
               (updateFirst (\<lambda>t. tid t = Some ''t-students'') (\<lambda>t. t\<lparr>tname := ''pupils''\<rparr>)
                  (tables (jsonClone campus)))\<rparr>"
  have sp: "schema ?p1 = Some campus" by (simp add: projectOf_def)
  have free: "\<not> (\<exists>t\<in>set (tables campus). tname t = ''pupils'' \<and> tid t \<noteq> Some ''t-students'')"
    by (simp add: example_defs)
  have found: "find (\<lambda>t. tid t = Some ''t-students'') (tables campus) = Some students"
    by (simp add: example_defs)
  have nm: "tname students \<noteq> []" by (simp add: students_def)
  have ed: "edited = commitSchemaChange (Some ?p1) (Some ?renamed) 102 asked"
    unfolding edited_def using a1 sp free found nm by (rule handleUpdateTable_commit)
  have rn: "map tname (tables ?renamed) = [''pupils'', ''courses'', ''students_courses'', ''triple'']"
    by (simp add: jsonClone_def jsonTable_def renameForeignKeys_def example_defs)
  have a2: "activeProject edited
      = Some (?p0\<lparr>messages := [?msg], schema := Some ?renamed, undoStack := [None, Some campus],
                 redoStack := [], lastModified := 102\<rparr>)"
    unfolding ed using commitSchemaChange_Some[OF a1, of ?p1 "Some ?renamed" 102]
    by (simp add: projectOf_def)
  have ne: "?renamed \<noteq> campus"
  proof
    assume "?renamed = campus"
    then have "map tname (tables ?renamed) = map tname (tables campus)" by simp
    then show False unfolding rn by (simp add: example_defs)
  qed
  obtain fromAI counter where
    rc: "reconcileSchemaIds \<lparr>tables = [regeneratedUsers]\<rparr> campus 0 = (fromAI, counter)"
    by (cases "reconcileSchemaIds \<lparr>tables = [regeneratedUsers]\<rparr> campus 0")
  have one: "length (tables fromAI) = 1"
    using rc by (auto simp: reconcileSchemaIds_def split: prod.splits)
  have ne2: "fromAI \<noteq> ?renamed"
  proof
    assume "fromAI = ?renamed"
    then have "length (tables fromAI) = length (map tname (tables ?renamed))" by simp
    then show False unfolding rn one by simp
  qed
  have st: "settled = updateActiveProject
       (\<lambda>q. q\<lparr>messages := [?msg, \<lparr>sender = Ai,
             mtext = ''Schema updated based on your request. What'' @ apostrophe @ ''s next?''\<rparr>]\<rparr>) 103
       (commitSchemaChange (Some ?p0) (Some fromAI) 103 edited)"
    using rc by (simp add: settled_def handleSendMessageSettled_def a0 projectOf_def)
  have a3: "activeProject settled
      = Some (?p0\<lparr>messages := [?msg, \<lparr>sender = Ai,
             mtext = ''Schema updated based on your request. What'' @ apostrophe @ ''s next?''\<rparr>],
           schema := Some fromAI, undoStack := [None, Some campus],
           redoStack := [], lastModified := 103\<rparr>)"
    unfolding st using commitSchemaChange_Some[OF a2, of ?p0 "Some fromAI" 103]
    by (simp add: updateActiveProject_def projectOf_def)
  from a0 a1 a2 a3 ne ne2 show ?thesis
    by (simp add: handleUndo_def updateActiveProject_def projectOf_def)
qed

section \<open>Reconciliation\<close>

lemma jsMap_distinct:
  "distinct (map fst entries) \<Longrightarrow> (k, v) \<in> set entries \<Longrightarrow> jsMap entries k = Some v"
  by (simp add: jsMap_def rev_map[symmetric])

lemma jsMap_by_name:
  "distinct (map f xs) \<Longrightarrow> x \<in> set xs \<Longrightarrow> jsMap (map (\<lambda>u. (f u, u)) xs) (f x) = Some x"
  by (rule jsMap_distinct) (auto simp: comp_def)

lemma orMint_truthy: "truthy i \<Longrightarrow> orMint i minted counter = (the i, counter) \<and> Some (the i) = i"
  by (cases i) (auto simp: orMint_def truthy_def)

lemma reconcileColumns_same:
  "\<forall>c\<in>set cs. m (cname c) = Some c \<and> truthy (cid c) \<Longrightarrow>
   reconcileColumns m tableId cs counter = (cs, counter)"
proof (induction cs)
  case Nil
  then show ?case by simp
next
  case (Cons c cs)
  then have m: "m (cname c) = Some c" and i: "truthy (cid c)" by simp_all
  from Cons have rest: "reconcileColumns m tableId cs counter = (cs, counter)" by simp
  from orMint_truthy[OF i] m rest show ?case by simp
qed

lemma reconcileTable_same:
  assumes "m (tname t) = Some t" and "truthy (tid t)"
    and "\<forall>c\<in>set (columns t). truthy (cid c)" and "distinct (map cname (columns t))"
  shows "reconcileTable m t counter = (t, counter)"
proof -
  have "\<forall>c\<in>set (columns t). jsMap (map (\<lambda>c. (cname c, c)) (columns t)) (cname c) = Some c \<and> truthy (cid c)"
    using assms(3,4) by (simp add: jsMap_by_name)
  then have "reconcileColumns (jsMap (map (\<lambda>c. (cname c, c)) (columns t))) (the (tid t)) (columns t) counter
     = (columns t, counter)"
    by (rule reconcileColumns_same)
  with assms(1) orMint_truthy[OF assms(2)] show ?thesis
    by (simp add: reconcileTable_def orElse_def Let_def)
qed

lemma reconcileTables_same:
  "\<forall>t\<in>set ts. m (tname t) = Some t \<and> truthy (tid t)
      \<and> (\<forall>c\<in>set (columns t). truthy (cid c)) \<and> distinct (map cname (columns t)) \<Longrightarrow>
   reconcileTables m ts counter = (ts, counter)"
  by (induction ts) (simp_all add: reconcileTable_same)

text \<open>
  Claim C3. A table or column carries an identifier when its \<open>id\<close> is a non-empty string
  (what the source's \<open>!t.id\<close> and \<open>||\<close> test). For a schema in which every table and
  column carries an identifier, table names are pairwise distinct and column names are
  pairwise distinct within each table, reconciling the schema against itself returns the
  schema itself: the same identifiers, positions and everything else, and no identifier
  is minted (the counter is unchanged).
\<close>

theorem reconcile_self:
  assumes "\<forall>t\<in>set (tables s). truthy (tid t) \<and> (\<forall>c\<in>set (columns t). truthy (cid c))
             \<and> distinct (map cname (columns t))"
    and "distinct (map tname (tables s))"
  shows "reconcileSchemaIds s s counter = (s, counter)"
proof -
  have "\<forall>t\<in>set (tables s). jsMap (map (\<lambda>t. (tname t, t)) (tables s)) (tname t) = Some t
      \<and> truthy (tid t) \<and> (\<forall>c\<in>set (columns t). truthy (cid c)) \<and> distinct (map cname (columns t))"
    using assms by (simp add: jsMap_by_name)
  then have "reconcileTables (jsMap (map (\<lambda>t. (tname t, t)) (tables s))) (tables s) counter
     = (tables s, counter)"
    by (rule reconcileTables_same)
  then show ?thesis by (simp add: reconcileSchemaIds_def)
qed

theorem reconcile_self_witness:
  "distinct (map tname (tables campus)) \<and> reconcileSchemaIds campus campus 0 = (campus, 0)"
  using reconcile_self[of campus 0]
  by (simp add: example_defs truthy_def)

lemma reconcileTables_nth:
  "i < length ts \<Longrightarrow>
   length (fst (reconcileTables m ts counter)) = length ts
   \<and> (\<exists>k. fst (reconcileTables m ts counter) ! i = fst (reconcileTable m (ts ! i) k))"
proof (induction ts arbitrary: i counter)
  case Nil
  then show ?case by simp
next
  case (Cons t ts)
  obtain t' k1 where h: "reconcileTable m t counter = (t', k1)" by (cases "reconcileTable m t counter")
  obtain r' k2 where r: "reconcileTables m ts k1 = (r', k2)" by (cases "reconcileTables m ts k1")
  show ?case
  proof (cases i)
    case 0
    have "length r' = length ts"
    proof (cases ts)
      case Nil
      with r show ?thesis by simp
    next
      case (Cons u us)
      then have "0 < length ts" by simp
      from Cons.IH[OF this, of k1] r show ?thesis by simp
    qed
    with h r 0 show ?thesis by (auto intro: exI[of _ counter])
  next
    case (Suc j)
    with Cons.prems have "j < length ts" by simp
    from Cons.IH[OF this, of k1] h r Suc show ?thesis by simp
  qed
qed

lemma reconcileTable_matched:
  assumes "m (tname nt) = Some ot"
  shows "tx (fst (reconcileTable m nt k)) = orElse (tx nt) (tx ot)"
    and "ty (fst (reconcileTable m nt k)) = orElse (ty nt) (ty ot)"
    and "tname (fst (reconcileTable m nt k)) = tname nt"
    and "truthy (tid ot) \<Longrightarrow> tid (fst (reconcileTable m nt k)) = tid ot"
  using assms orMint_truthy[of "tid ot"]
  by (auto simp: reconcileTable_def Let_def split: prod.splits option.splits)

text \<open>
  Claim C4, as amended. For every pair of schemas and every table of the new schema
  whose name the map of old tables resolves (to the last old table of that name),
  reconciliation keeps the number and the names of the tables, gives the table the old
  table's identifier when the old table carries one, and gives it the new schema's
  position in each coordinate the new schema provides and the old table's coordinate
  otherwise (\<open>??\<close>: a coordinate that is \<open>undefined\<close> or \<open>null\<close> is not provided).
\<close>

theorem reconcile_matched:
  assumes i: "i < length (tables newSchema)"
    and m: "tableMap oldSchema (tname (tables newSchema ! i)) = Some oldTable"
  shows "length (tables (fst (reconcileSchemaIds newSchema oldSchema counter))) = length (tables newSchema)
     \<and> tname (tables (fst (reconcileSchemaIds newSchema oldSchema counter)) ! i) = tname (tables newSchema ! i)
     \<and> (truthy (tid oldTable) \<longrightarrow>
          tid (tables (fst (reconcileSchemaIds newSchema oldSchema counter)) ! i) = tid oldTable)
     \<and> tx (tables (fst (reconcileSchemaIds newSchema oldSchema counter)) ! i)
         = orElse (tx (tables newSchema ! i)) (tx oldTable)
     \<and> ty (tables (fst (reconcileSchemaIds newSchema oldSchema counter)) ! i)
         = orElse (ty (tables newSchema ! i)) (ty oldTable)"
proof -
  let ?m = "jsMap (map (\<lambda>t. (tname t, t)) (tables oldSchema))"
  have res: "tables (fst (reconcileSchemaIds newSchema oldSchema counter))
       = fst (reconcileTables ?m (tables newSchema) counter)"
    by (simp add: reconcileSchemaIds_def split: prod.splits)
  from reconcileTables_nth[OF i, of ?m counter] obtain k where
    len: "length (fst (reconcileTables ?m (tables newSchema) counter)) = length (tables newSchema)"
    and nth: "fst (reconcileTables ?m (tables newSchema) counter) ! i
                = fst (reconcileTable ?m (tables newSchema ! i) k)" by blast
  have m': "?m (tname (tables newSchema ! i)) = Some oldTable" using m by (simp add: tableMap_def)
  show ?thesis
    unfolding res nth len
    using reconcileTable_matched[of ?m "tables newSchema ! i" oldTable k, OF m'] by simp
qed


theorem reconcile_matched_witness:
  "tableMap \<lparr>tables = [storedUsers]\<rparr> (tname regeneratedUsers) = Some storedUsers
   \<and> truthy (tid storedUsers)
   \<and> reconcileSchemaIds \<lparr>tables = [regeneratedUsers]\<rparr> \<lparr>tables = [storedUsers]\<rparr> 7
       = (\<lparr>tables = [regeneratedUsers\<lparr>tid := Some ''table-users-0'', tx := Some (Num 5), ty := Some (Num 6),
             columns := [(columns regeneratedUsers ! 0)\<lparr>cid := Some ''col-table-users-0-id-1''\<rparr>,
                         (columns regeneratedUsers ! 1)\<lparr>cid := Some ''col-table-users-0-e_mail-7''\<rparr>]\<rparr>]\<rparr>, 8)
   \<and> tid (tables (fst (reconcileSchemaIds \<lparr>tables = [regeneratedUsers]\<rparr> \<lparr>tables = [storedUsers]\<rparr> 7)) ! 0)
       = tid storedUsers
   \<and> tx (tables (fst (reconcileSchemaIds \<lparr>tables = [regeneratedUsers]\<rparr> \<lparr>tables = [storedUsers]\<rparr> 7)) ! 0)
       = Some (Num 5)"
proof -
  have i: "0 < length (tables \<lparr>tables = [regeneratedUsers]\<rparr>)" by simp
  have m: "tableMap \<lparr>tables = [storedUsers]\<rparr> (tname (tables \<lparr>tables = [regeneratedUsers]\<rparr> ! 0))
             = Some storedUsers"
    by (simp add: tableMap_def jsMap_def example_defs)
  have t: "truthy (tid storedUsers)" by (simp add: truthy_def storedUsers_def)
  have e: "reconcileSchemaIds \<lparr>tables = [regeneratedUsers]\<rparr> \<lparr>tables = [storedUsers]\<rparr> 7
       = (\<lparr>tables = [regeneratedUsers\<lparr>tid := Some ''table-users-0'', tx := Some (Num 5), ty := Some (Num 6),
             columns := [(columns regeneratedUsers ! 0)\<lparr>cid := Some ''col-table-users-0-id-1''\<rparr>,
                         (columns regeneratedUsers ! 1)\<lparr>cid := Some ''col-table-users-0-e_mail-7''\<rparr>]\<rparr>]\<rparr>, 8)"
    by (simp add: reconcileSchemaIds_def reconcileTable_def jsMap_def orMint_def mintColumnId_def
        mintTableId_def isSpace_def decimal.simps digitChar_def orElse_def nullish_def example_defs)
  from reconcile_matched[OF i m, of 7] t m e show ?thesis
    by (simp add: storedUsers_def)
qed

text \<open>
  Claim C4 as stated fails where both tables have a position: the source evaluates
  \<open>newTable.x ?? oldTable?.x\<close>, so the position of the new schema wins.
\<close>

theorem reconcile_matched_counterexample:
  "tableMap \<lparr>tables = [storedUsers]\<rparr> (tname placedUsers) = Some storedUsers
   \<and> tx storedUsers = Some (Num 5) \<and> ty storedUsers = Some (Num 6)
   \<and> tx (tables (fst (reconcileSchemaIds \<lparr>tables = [placedUsers]\<rparr> \<lparr>tables = [storedUsers]\<rparr> 7)) ! 0)
       = Some (Num 1)
   \<and> ty (tables (fst (reconcileSchemaIds \<lparr>tables = [placedUsers]\<rparr> \<lparr>tables = [storedUsers]\<rparr> 7)) ! 0)
       = Some (Num 2)"
  by (simp add: tableMap_def reconcileSchemaIds_def reconcileTable_def jsMap_def orMint_def
      mintColumnId_def mintTableId_def isSpace_def decimal.simps digitChar_def orElse_def
      nullish_def example_defs)

section \<open>The connection tool\<close>

text \<open>
  Claim C5, as amended. In the state \<open>sourceSelected\<close> (a connection tool is active and a
  node with a non-empty identifier is the source), a click on the source node commits no
  edge and changes neither the project nor the error slot, but it is not a no-op: the
  source is cleared, so the machine is back in \<open>idle\<close>, and the active tool becomes
  \<open>select\<close>.
\<close>

theorem same_node_click:
  assumes "isConnectionTool (activeTool (app e))" and "connectionSource e = Some src" and "src \<noteq> []"
  shows "nodeClick src now e = e\<lparr>app := (app e)\<lparr>activeTool := Select\<rparr>, connectionSource := None\<rparr>"
  using assms by (auto simp: nodeClick_def truthy_def setActiveTool_def isConnectionTool_def)

theorem same_node_click_witness:
  "isConnectionTool (activeTool (app pendingConnection))
   \<and> connectionSource pendingConnection = Some ''t-students''
   \<and> nodeClick ''t-students'' 101 pendingConnection
       = \<lparr>app = appOf (Some campus) Select, connectionSource = None, editingTableId = None\<rparr>"
  using same_node_click[of pendingConnection "''t-students''" 101]
  by (simp add: pendingConnection_def appOf_def isConnectionTool_def)

text \<open>
  Claim C5 as stated fails: after the click on the source node the source is gone and
  the tool is \<open>select\<close>, where the claim has the same source and the same tool.
\<close>

theorem same_node_click_counterexample:
  "connectionSource pendingConnection = Some ''t-students''
   \<and> activeTool (app pendingConnection) = AddConnection_1_n
   \<and> connectionSource (nodeClick ''t-students'' 101 pendingConnection) = None
   \<and> activeTool (app (nodeClick ''t-students'' 101 pendingConnection)) = Select"
  by (simp add: pendingConnection_def appOf_def nodeClick_def truthy_def setActiveTool_def
      isConnectionTool_def)

section \<open>Validation failures\<close>

lemma find_pair_Some:
  "(t, c) \<in> set ps \<Longrightarrow> P t c \<Longrightarrow> \<exists>t' c'. find (\<lambda>(t, c). P t c) ps = Some (t', c')"
  by (induction ps) auto

lemma distinct_key_eq:
  "distinct (map f xs) \<Longrightarrow> x \<in> set xs \<Longrightarrow> y \<in> set xs \<Longrightarrow> f x = f y \<Longrightarrow> x = y"
  by (auto simp: distinct_map inj_on_def)

text \<open>
  Claim C6, as amended. With an active project that has a schema: a rename to a name that
  a table with an identifier other than the renamed table's has (where identifiers are
  pairwise distinct: that any other table has), a 1-to-N connection to a target without
  primary key (or an N-to-N connection where a side has none), and the deletion of a
  column that a foreign key references each return the state they were given with only
  the error slot set: the project, so its schema and its undo and redo stacks, is the
  same.
\<close>

theorem validation_failures:
  assumes ap: "activeProject a = Some p" and sp: "schema p = Some s"
  shows "((\<exists>t\<in>set (tables s). tname t = newName \<and> tid t \<noteq> Some tableId) \<longrightarrow>
            handleUpdateTable tableId newName now a
              = a\<lparr>error := Some (''A table with the name '' @ dquote @ newName @ dquote
                                  @ '' already exists.'')\<rparr>)
       \<and> (distinct (map tid (tables s)) \<and> renamed \<in> set (tables s) \<and> tid renamed = Some tableId
          \<and> other \<in> set (tables s) \<and> other \<noteq> renamed \<and> tname other = newName \<longrightarrow>
            handleUpdateTable tableId newName now a
              = a\<lparr>error := Some (''A table with the name '' @ dquote @ newName @ dquote
                                  @ '' already exists.'')\<rparr>
          \<and> activeProject (handleUpdateTable tableId newName now a) = Some p)
       \<and> (find (\<lambda>t. tid t = Some src) (tables s) = Some sourceTable
          \<and> find (\<lambda>t. tid t = Some tgt) (tables s) = Some targetTable \<longrightarrow>
            (find isPrimaryKey (columns targetTable) = None \<longrightarrow>
               handleAddConnection src tgt OneToN now a
                 = a\<lparr>error := Some (''Cannot create connection: Target table '' @ dquote
                                     @ tname targetTable @ dquote @ '' has no primary key.'')\<rparr>)
          \<and> (find isPrimaryKey (columns sourceTable) = None
               \<or> find isPrimaryKey (columns targetTable) = None \<longrightarrow>
               handleAddConnection src tgt NToN now a
                 = a\<lparr>error := Some ''Cannot create N-N connection: Both tables must have a primary key.''\<rparr>))
       \<and> (find (\<lambda>t. tid t = Some holderId) (tables s) = Some tableToDeleteFrom
          \<and> find (\<lambda>c. cid c = Some columnId) (columns tableToDeleteFrom) = Some columnToDelete
          \<and> (t, c) \<in> set (columnPairs s) \<and> isForeignKey c
          \<and> foreignKeyTable c = Some (tname tableToDeleteFrom)
          \<and> foreignKeyColumn c = Some (cname columnToDelete) \<longrightarrow>
            (\<exists>msg. handleDeleteColumn holderId columnId now a = a\<lparr>error := Some msg\<rparr>))"
proof (intro conjI impI)
  assume "\<exists>t\<in>set (tables s). tname t = newName \<and> tid t \<noteq> Some tableId"
  with ap sp show "handleUpdateTable tableId newName now a
              = a\<lparr>error := Some (''A table with the name '' @ dquote @ newName @ dquote
                                  @ '' already exists.'')\<rparr>"
    by (simp add: handleUpdateTable_def)
next
  assume h: "distinct (map tid (tables s)) \<and> renamed \<in> set (tables s) \<and> tid renamed = Some tableId
          \<and> other \<in> set (tables s) \<and> other \<noteq> renamed \<and> tname other = newName"
  then have "tid other \<noteq> Some tableId"
    using distinct_key_eq[of tid "tables s" other renamed] by auto
  with h have "\<exists>t\<in>set (tables s). tname t = newName \<and> tid t \<noteq> Some tableId" by blast
  with ap sp have r: "handleUpdateTable tableId newName now a
              = a\<lparr>error := Some (''A table with the name '' @ dquote @ newName @ dquote
                                  @ '' already exists.'')\<rparr>"
    by (simp add: handleUpdateTable_def)
  then show "handleUpdateTable tableId newName now a
              = a\<lparr>error := Some (''A table with the name '' @ dquote @ newName @ dquote
                                  @ '' already exists.'')\<rparr>" .
  from r ap show "activeProject (handleUpdateTable tableId newName now a) = Some p" by simp
next
  assume "find (\<lambda>t. tid t = Some src) (tables s) = Some sourceTable
          \<and> find (\<lambda>t. tid t = Some tgt) (tables s) = Some targetTable"
    and "find isPrimaryKey (columns targetTable) = None"
  with ap sp show "handleAddConnection src tgt OneToN now a
                 = a\<lparr>error := Some (''Cannot create connection: Target table '' @ dquote
                                     @ tname targetTable @ dquote @ '' has no primary key.'')\<rparr>"
    by (simp add: handleAddConnection_def jsonClone_find)
next
  assume "find (\<lambda>t. tid t = Some src) (tables s) = Some sourceTable
          \<and> find (\<lambda>t. tid t = Some tgt) (tables s) = Some targetTable"
    and "find isPrimaryKey (columns sourceTable) = None
               \<or> find isPrimaryKey (columns targetTable) = None"
  with ap sp show "handleAddConnection src tgt NToN now a
                 = a\<lparr>error := Some ''Cannot create N-N connection: Both tables must have a primary key.''\<rparr>"
    by (auto simp: handleAddConnection_def jsonClone_find Let_def split: option.splits)
next
  assume h: "find (\<lambda>t. tid t = Some holderId) (tables s) = Some tableToDeleteFrom
          \<and> find (\<lambda>c. cid c = Some columnId) (columns tableToDeleteFrom) = Some columnToDelete
          \<and> (t, c) \<in> set (columnPairs s) \<and> isForeignKey c
          \<and> foreignKeyTable c = Some (tname tableToDeleteFrom)
          \<and> foreignKeyColumn c = Some (cname columnToDelete)"
  then obtain t' c' where
    "find (\<lambda>(t, c). isForeignKey c \<and> foreignKeyTable c = Some (tname tableToDeleteFrom)
                 \<and> foreignKeyColumn c = Some (cname columnToDelete)) (columnPairs s) = Some (t', c')"
    using find_pair_Some[of t c "columnPairs s"
        "\<lambda>t c. isForeignKey c \<and> foreignKeyTable c = Some (tname tableToDeleteFrom)
                 \<and> foreignKeyColumn c = Some (cname columnToDelete)"]
    by blast
  with ap sp h have "handleDeleteColumn holderId columnId now a
      = a\<lparr>error := Some (''Cannot delete column '' @ dquote @ cname columnToDelete
                          @ dquote @ ''. It is referenced by '' @ dquote
                          @ tname t' @ ''.'' @ cname c' @ dquote @ ''.'')\<rparr>"
    by (simp add: handleDeleteColumn_def)
  then show "\<exists>msg. handleDeleteColumn holderId columnId now a = a\<lparr>error := Some msg\<rparr>"
    by (rule exI)
qed

theorem validation_failures_witness:
  "handleUpdateTable ''t-notes'' ''students'' 101 (appOf (Some registry) Select)
     = (appOf (Some registry) Select)\<lparr>error := Some (''A table with the name '' @ dquote
          @ ''students'' @ dquote @ '' already exists.'')\<rparr>
   \<and> distinct (map tid (tables registry)) \<and> students \<noteq> memos
   \<and> activeProject (handleUpdateTable ''t-notes'' ''students'' 101 (appOf (Some registry) Select))
     = Some (projectOf (Some registry))
   \<and> handleAddConnection ''t-students'' ''t-notes'' OneToN 101 (appOf (Some registry) Select)
     = (appOf (Some registry) Select)\<lparr>error := Some (''Cannot create connection: Target table ''
          @ dquote @ ''notes'' @ dquote @ '' has no primary key.'')\<rparr>
   \<and> handleAddConnection ''t-students'' ''t-notes'' NToN 101 (appOf (Some registry) Select)
     = (appOf (Some registry) Select)\<lparr>error :=
          Some ''Cannot create N-N connection: Both tables must have a primary key.''\<rparr>
   \<and> (\<exists>msg. handleDeleteColumn ''t-students'' ''c-students-id'' 101 (appOf (Some registry) Select)
         = (appOf (Some registry) Select)\<lparr>error := Some msg\<rparr>)"
proof -
  have ap: "activeProject (appOf (Some registry) Select) = Some (projectOf (Some registry))"
    by (simp add: appOf_def)
  have sp: "schema (projectOf (Some registry)) = Some registry"
    by (simp add: projectOf_def)
  note inst = validation_failures[OF ap sp, where newName = "''students''" and tableId = "''t-notes''"
      and src = "''t-students''" and tgt = "''t-notes''" and sourceTable = students
      and targetTable = memos and holderId = "''t-students''" and columnId = "''c-students-id''"
      and tableToDeleteFrom = students and columnToDelete = "hd (columns students)"
      and t = enrolment and c = "keyColumn ''students_id'' ''students''" and now = 101
      and renamed = memos and other = students]
  have h1: "\<exists>t\<in>set (tables registry). tname t = ''students'' \<and> tid t \<noteq> Some ''t-notes''"
    by (simp add: example_defs)
  have h2: "find (\<lambda>t. tid t = Some ''t-students'') (tables registry) = Some students
          \<and> find (\<lambda>t. tid t = Some ''t-notes'') (tables registry) = Some memos"
    by (simp add: example_defs)
  have h3: "find isPrimaryKey (columns memos) = None" by (simp add: memos_def)
  have h4: "find (\<lambda>t. tid t = Some ''t-students'') (tables registry) = Some students
          \<and> find (\<lambda>c. cid c = Some ''c-students-id'') (columns students) = Some (hd (columns students))
          \<and> (enrolment, keyColumn ''students_id'' ''students'') \<in> set (columnPairs registry)
          \<and> isForeignKey (keyColumn ''students_id'' ''students'')
          \<and> foreignKeyTable (keyColumn ''students_id'' ''students'') = Some (tname students)
          \<and> foreignKeyColumn (keyColumn ''students_id'' ''students'') = Some (cname (hd (columns students)))"
    by (simp add: example_defs columnPairs_def)
  have h5: "distinct (map tid (tables registry)) \<and> memos \<in> set (tables registry)
          \<and> tid memos = Some ''t-notes'' \<and> students \<in> set (tables registry) \<and> students \<noteq> memos
          \<and> tname students = ''students''"
    by (simp add: example_defs)
  have n: "tname memos = ''notes''" by (simp add: memos_def)
  from inst h1 h2 h3 h4 h5 show ?thesis unfolding n by blast
qed

text \<open>
  Claim C6 as stated fails where identifiers repeat. In the schema \<open>twins\<close> the second table
  is named \<open>users\<close> and shares its identifier with the first; renaming the first table to
  \<open>users\<close> is not rejected: it sets no error, leaves two tables named \<open>users\<close> and pushes
  the previous schema onto the undo stack.
\<close>

theorem validation_failures_counterexample:
  "map tname (tables twins) = [''people'', ''users'']
   \<and> find (\<lambda>t. tid t = Some ''table-users-0'') (tables twins) = Some (tables twins ! 0)
   \<and> tables twins ! 1 \<noteq> tables twins ! 0
   \<and> error (handleUpdateTable ''table-users-0'' ''users'' 101 (appOf (Some twins) Select)) = None
   \<and> map_option (\<lambda>q. map_option (\<lambda>s. map tname (tables s)) (schema q))
        (activeProject (handleUpdateTable ''table-users-0'' ''users'' 101 (appOf (Some twins) Select)))
       = Some (Some [''users'', ''users''])
   \<and> map_option undoStack
        (activeProject (handleUpdateTable ''table-users-0'' ''users'' 101 (appOf (Some twins) Select)))
       = Some [None, Some twins]"
  by (simp add: handleUpdateTable_def commitSchemaChange_def updateActiveProject_def Let_def
      jsonClone_def jsonTable_def jsonCoord_def renameForeignKeys_def appOf_def projectOf_def
      twins_def idColumn_def)

section \<open>Rename propagation\<close>

lemma updateFirst_length: "length (updateFirst P f xs) = length xs"
  by (induction xs) auto

lemma updateFirst_nth:
  "i < length xs \<Longrightarrow>
   updateFirst P f xs ! i = (if P (xs ! i) \<and> (\<forall>k<i. \<not> P (xs ! k)) then f (xs ! i) else xs ! i)"
proof (induction xs arbitrary: i)
  case Nil
  then show ?case by simp
next
  case (Cons x xs)
  show ?case
  proof (cases i)
    case 0
    then show ?thesis by simp
  next
    case (Suc j)
    with Cons.prems have j: "j < length xs" by simp
    show ?thesis
    proof (cases "P x")
      case True
      then have c: "\<not> (P ((x # xs) ! i) \<and> (\<forall>k<i. \<not> P ((x # xs) ! k)))" using Suc by auto
      show ?thesis unfolding if_not_P[OF c] using True Suc by simp
    next
      case False
      have "(\<forall>k<Suc j. \<not> P ((x # xs) ! k)) \<longleftrightarrow> (\<forall>k<j. \<not> P (xs ! k))"
        using False by (auto simp: less_Suc_eq_0_disj)
      with False Suc Cons.IH[OF j] show ?thesis by auto
    qed
  qed
qed

lemma updateFirst_map:
  "(\<And>x. P (g x) = P x) \<Longrightarrow> (\<And>x. f (g x) = g (f x)) \<Longrightarrow>
   updateFirst P f (map g xs) = map g (updateFirst P f xs)"
  by (induction xs) simp_all

lemma renameForeignKeys_jsonTable:
  "renameForeignKeys oldName newName (jsonTable t) = jsonTable (renameForeignKeys oldName newName t)"
  by (simp add: renameForeignKeys_def jsonTable_def)

lemma renamed_tables_jsonClone:
  "map (renameForeignKeys oldName newName)
     (updateFirst (\<lambda>t. tid t = Some tableId) (\<lambda>t. t\<lparr>tname := newName\<rparr>) (tables (jsonClone s)))
   = map jsonTable (map (renameForeignKeys oldName newName)
       (updateFirst (\<lambda>t. tid t = Some tableId) (\<lambda>t. t\<lparr>tname := newName\<rparr>) (tables s)))"
proof -
  have "updateFirst (\<lambda>t. tid t = Some tableId) (\<lambda>t. t\<lparr>tname := newName\<rparr>) (map jsonTable (tables s))
      = map jsonTable (updateFirst (\<lambda>t. tid t = Some tableId) (\<lambda>t. t\<lparr>tname := newName\<rparr>) (tables s))"
    by (rule updateFirst_map) (simp_all add: jsonTable_def)
  then show ?thesis by (simp add: jsonClone_def renameForeignKeys_jsonTable comp_def)
qed

lemma unusedCounter_free:
  "candidateName base counter \<notin> set names \<Longrightarrow> unusedCounter base names counter = counter"
  by (subst unusedCounter.simps) simp

text \<open>
  Claim C7, as amended. A rename succeeds when no table with another identifier has the
  new name and the table found by the identifier has a non-empty name \<open>oldName\<close>. The new
  schema is committed (the old one goes onto the undo stack) and, position by position,
  every table keeps its identifier and the number of its columns; each coordinate of its
  position is what the JSON round trip makes of the old one (the same, except that
  not-a-number becomes \<open>null\<close>); the name changes for the renamed table (the first with
  the identifier) only; and every column is the old column, with \<open>foreignKeyTable\<close> set
  to the new name where it was a foreign key into \<open>oldName\<close>, and unchanged otherwise.
\<close>

theorem rename_propagation:
  assumes ap: "activeProject a = Some p" and sp: "schema p = Some s"
    and free: "\<not> (\<exists>t\<in>set (tables s). tname t = newName \<and> tid t \<noteq> Some tableId)"
    and found: "find (\<lambda>t. tid t = Some tableId) (tables s) = Some renamed"
    and old: "tname renamed = oldName" and ne: "oldName \<noteq> []"
  shows "\<exists>q s'. activeProject (handleUpdateTable tableId newName now a) = Some q
      \<and> schema q = Some s' \<and> undoStack q = undoStack p @ [Some s]
      \<and> length (tables s') = length (tables s)
      \<and> (\<forall>i<length (tables s).
            tid (tables s' ! i) = tid (tables s ! i)
          \<and> tx (tables s' ! i) = jsonCoord (tx (tables s ! i))
          \<and> ty (tables s' ! i) = jsonCoord (ty (tables s ! i))
          \<and> tname (tables s' ! i)
              = (if tid (tables s ! i) = Some tableId \<and> (\<forall>k<i. tid (tables s ! k) \<noteq> Some tableId)
                 then newName else tname (tables s ! i))
          \<and> length (columns (tables s' ! i)) = length (columns (tables s ! i))
          \<and> (\<forall>j<length (columns (tables s ! i)).
                columns (tables s' ! i) ! j
                  = (if isForeignKey (columns (tables s ! i) ! j)
                        \<and> foreignKeyTable (columns (tables s ! i) ! j) = Some oldName
                     then (columns (tables s ! i) ! j)\<lparr>foreignKeyTable := Some newName\<rparr>
                     else columns (tables s ! i) ! j)))"
proof -
  let ?ts = "map jsonTable (map (renameForeignKeys oldName newName)
               (updateFirst (\<lambda>t. tid t = Some tableId) (\<lambda>t. t\<lparr>tname := newName\<rparr>) (tables s)))"
  let ?s' = "s\<lparr>tables := ?ts\<rparr>"
  let ?q = "p\<lparr>schema := Some ?s', undoStack := undoStack p @ [Some s], redoStack := [],
              ddl := ddl p, lastModified := now\<rparr>"
  have ne': "tname renamed \<noteq> []" using old ne by simp
  have "(jsonClone s)\<lparr>tables := map (renameForeignKeys (tname renamed) newName)
               (updateFirst (\<lambda>t. tid t = Some tableId) (\<lambda>t. t\<lparr>tname := newName\<rparr>)
                  (tables (jsonClone s)))\<rparr> = ?s'"
    unfolding old renamed_tables_jsonClone by (simp add: jsonClone_def)
  with handleUpdateTable_commit[OF ap sp free found ne', of now]
  have "handleUpdateTable tableId newName now a = commitSchemaChange (Some p) (Some ?s') now a"
    by simp
  with commitSchemaChange_Some[OF ap, of p "Some ?s'" now] sp
  have run: "activeProject (handleUpdateTable tableId newName now a) = Some ?q"
    by simp
  have each: "\<forall>i<length (tables s).
            tid (tables ?s' ! i) = tid (tables s ! i)
          \<and> tx (tables ?s' ! i) = jsonCoord (tx (tables s ! i))
          \<and> ty (tables ?s' ! i) = jsonCoord (ty (tables s ! i))
          \<and> tname (tables ?s' ! i)
              = (if tid (tables s ! i) = Some tableId \<and> (\<forall>k<i. tid (tables s ! k) \<noteq> Some tableId)
                 then newName else tname (tables s ! i))
          \<and> length (columns (tables ?s' ! i)) = length (columns (tables s ! i))
          \<and> (\<forall>j<length (columns (tables s ! i)).
                columns (tables ?s' ! i) ! j
                  = (if isForeignKey (columns (tables s ! i) ! j)
                        \<and> foreignKeyTable (columns (tables s ! i) ! j) = Some oldName
                     then (columns (tables s ! i) ! j)\<lparr>foreignKeyTable := Some newName\<rparr>
                     else columns (tables s ! i) ! j))"
    by (auto simp: updateFirst_length updateFirst_nth renameForeignKeys_def)
  have q: "schema ?q = Some ?s' \<and> undoStack ?q = undoStack p @ [Some s]
      \<and> length (tables ?s') = length (tables s)"
    by (simp add: updateFirst_length)
  from run q each show ?thesis by blast
qed


theorem rename_propagation_witness:
  "find (\<lambda>t. tid t = Some ''t-students'') (tables campus) = Some students
   \<and> map_option schema (activeProject (handleUpdateTable ''t-students'' ''pupils'' 101
        (appOf (Some campus) Select)))
     = Some (Some \<lparr>tables =
         [students\<lparr>tname := ''pupils''\<rparr>, courses,
          enrolment\<lparr>columns := [keyColumn ''students_id'' ''pupils'',
                                keyColumn ''courses_id'' ''courses'']\<rparr>,
          triple\<lparr>columns := [keyColumn ''students_id'' ''pupils'',
                             keyColumn ''courses_id'' ''courses'',
                             keyColumn ''mentor_id'' ''pupils'']\<rparr>]\<rparr>)"
proof -
  have ap: "activeProject (appOf (Some campus) Select) = Some (projectOf (Some campus))"
    by (simp add: appOf_def)
  have sp: "schema (projectOf (Some campus)) = Some campus"
    by (simp add: projectOf_def)
  have free: "\<not> (\<exists>t\<in>set (tables campus). tname t = ''pupils'' \<and> tid t \<noteq> Some ''t-students'')"
    by (simp add: example_defs)
  have found: "find (\<lambda>t. tid t = Some ''t-students'') (tables campus) = Some students"
    by (simp add: example_defs)
  have old: "tname students = ''students''" by (simp add: students_def)
  have ne: "''students'' \<noteq> []" by simp
  from rename_propagation[OF ap sp free found old ne, of 101]
  obtain q s' where q: "activeProject (handleUpdateTable ''t-students'' ''pupils'' 101
        (appOf (Some campus) Select)) = Some q" "schema q = Some s'"
    by blast
  have "map_option schema (activeProject (handleUpdateTable ''t-students'' ''pupils'' 101
        (appOf (Some campus) Select)))
     = Some (Some \<lparr>tables =
         [students\<lparr>tname := ''pupils''\<rparr>, courses,
          enrolment\<lparr>columns := [keyColumn ''students_id'' ''pupils'',
                                keyColumn ''courses_id'' ''courses'']\<rparr>,
          triple\<lparr>columns := [keyColumn ''students_id'' ''pupils'',
                             keyColumn ''courses_id'' ''courses'',
                             keyColumn ''mentor_id'' ''pupils'']\<rparr>]\<rparr>)"
    by (simp add: handleUpdateTable_def jsonClone_def jsonTable_def jsonCoord_def
        commitSchemaChange_def Let_def updateActiveProject_def renameForeignKeys_def example_defs)
  with found q show ?thesis by simp
qed

text \<open>
  Claim C7 as stated fails for a position that is not-a-number. An N-to-N connection
  between \<open>students\<close> and \<open>courses\<close>, of which \<open>courses\<close> has no position, stores the
  junction table with not-a-number coordinates; the rename of \<open>students\<close> that follows
  changes both coordinates of the junction table to \<open>null\<close>.
\<close>

lemma linked_project:
  "activeProject linked
     = Some ((projectOf (Some pair))\<lparr>schema := Some \<lparr>tables = [students, courses, joined]\<rparr>,
          undoStack := [None, Some pair], redoStack := [], lastModified := 500\<rparr>)"
proof -
  have c: "unusedCounter ''students_courses'' [''students'', ''courses''] 1 = 1"
    by (intro unusedCounter_free) (simp add: candidateName_def)
  then have c': "unusedCounter ''students_courses'' [''students'', ''courses''] (Suc 0) = Suc 0"
    by simp
  have d: "decimal 500 = ''500''" by (simp add: decimal.simps digitChar_def)
  show ?thesis
    by (simp add: linked_def handleAddConnection_def Let_def jsonClone_def jsonTable_def
        jsonCoord_def midpoint_def toNumber_def c' d candidateName_def commitSchemaChange_def
        updateActiveProject_def appOf_def projectOf_def pair_def students_def courses_def
        joined_def)
qed

theorem rename_propagation_counterexample:
  "map_option schema (activeProject linked) = Some (Some \<lparr>tables = [students, courses, joined]\<rparr>)
   \<and> tx joined = Some NaN \<and> ty joined = Some NaN
   \<and> map_option schema (activeProject (handleUpdateTable ''t-students'' ''pupils'' 600 linked))
     = Some (Some \<lparr>tables =
         [students\<lparr>tname := ''pupils''\<rparr>, courses,
          joined\<lparr>columns := [(columns joined ! 0)\<lparr>foreignKeyTable := Some ''pupils''\<rparr>,
                             columns joined ! 1],
                 tx := Some Null, ty := Some Null\<rparr>]\<rparr>)
   \<and> joined\<lparr>columns := [(columns joined ! 0)\<lparr>foreignKeyTable := Some ''pupils''\<rparr>,
                          columns joined ! 1], tx := Some Null, ty := Some Null\<rparr>
     \<noteq> joined\<lparr>columns := [(columns joined ! 0)\<lparr>foreignKeyTable := Some ''pupils''\<rparr>,
                          columns joined ! 1]\<rparr>"
  by (simp add: linked_project handleUpdateTable_def jsonClone_def jsonTable_def jsonCoord_def
      commitSchemaChange_def Let_def updateActiveProject_def renameForeignKeys_def projectOf_def
      students_def courses_def joined_def)
section \<open>Position writes\<close>





section \<open>The users and posts scenario\<close>

lemma decimal_eq_iff: "decimal m = decimal n \<longleftrightarrow> m = n"
  using decimal_inject by auto

lemma commitSchemaChange_schema:
  "activeProject a = Some r \<Longrightarrow>
   \<exists>q. activeProject (commitSchemaChange (Some p) n now a) = Some q \<and> schema q = n
      \<and> undoStack q = undoStack p @ [schema p]"
  by (simp add: commitSchemaChange_def updateActiveProject_def)

lemma handleAddTable_fresh:
  assumes ap: "activeProject a = Some p"
    and cur: "cur = (case schema p of None \<Rightarrow> \<lparr>tables = []\<rparr> | Some s \<Rightarrow> s)"
    and fresh: "''new_table'' \<notin> set (map tname (tables cur))"
  shows "\<exists>q. activeProject (handleAddTable position now a) = Some q
     \<and> schema q = Some (cur\<lparr>tables := tables cur
          @ [\<lparr>tid = Some (''table-new_table-'' @ decimal now), tname = ''new_table'',
               columns = [idColumn (''table-new_table-'' @ decimal now)],
               tx = map_option (\<lambda>pos. Num (fst pos)) position,
               ty = map_option (\<lambda>pos. Num (snd pos)) position\<rparr>]\<rparr>)"
proof -
  have c: "unusedCounter ''new_table'' (map tname (tables cur)) 1 = 1"
    using fresh by (intro unusedCounter_free) (simp add: candidateName_def)
  let ?a1 = "(if messages p = []
              then updateActiveProject
                     (\<lambda>q. q\<lparr>messages := [\<lparr>sender = Ai,
                         mtext = ''Started a new schema and added table '' @ dquote
                                 @ candidateName ''new_table'' 1 @ dquote @ ''.''\<rparr>]\<rparr>) now a
              else a)"
  obtain p1 where p1: "activeProject ?a1 = Some p1"
    using ap by (cases "messages p = []") (simp_all add: updateActiveProject_def)
  have run: "handleAddTable position now a
     = commitSchemaChange (Some p) (Some (cur\<lparr>tables := tables cur
          @ [\<lparr>tid = Some (''table-new_table-'' @ decimal now), tname = ''new_table'',
               columns = [idColumn (''table-new_table-'' @ decimal now)],
               tx = map_option (\<lambda>pos. Num (fst pos)) position,
               ty = map_option (\<lambda>pos. Num (snd pos)) position\<rparr>]\<rparr>)) now ?a1"
    using ap cur[symmetric] c
    by (simp add: handleAddTable_def Let_def candidateName_def idColumn_def)
  from commitSchemaChange_schema[OF p1, of p] show ?thesis unfolding run by blast
qed

lemma handleUpdateTable_schema:
  assumes ap: "activeProject a = Some p" and sp: "schema p = Some s"
    and free: "\<not> (\<exists>t\<in>set (tables s). tname t = newName \<and> tid t \<noteq> Some tableId)"
    and found: "find (\<lambda>t. tid t = Some tableId) (tables s) = Some renamed"
    and ne: "tname renamed \<noteq> []"
    and clean: "jsonClone s = s"
  shows "\<exists>q. activeProject (handleUpdateTable tableId newName now a) = Some q
      \<and> schema q = Some (s\<lparr>tables := map (renameForeignKeys (tname renamed) newName)
               (updateFirst (\<lambda>t. tid t = Some tableId) (\<lambda>t. t\<lparr>tname := newName\<rparr>) (tables s))\<rparr>)
      \<and> undoStack q = undoStack p @ [Some s]"
proof -
  have run: "handleUpdateTable tableId newName now a
      = commitSchemaChange (Some p)
          (Some (s\<lparr>tables := map (renameForeignKeys (tname renamed) newName)
               (updateFirst (\<lambda>t. tid t = Some tableId) (\<lambda>t. t\<lparr>tname := newName\<rparr>) (tables s))\<rparr>)) now a"
    using handleUpdateTable_commit[OF ap sp free found ne, of now] by (simp add: clean)
  from commitSchemaChange_schema[OF ap, of p] sp show ?thesis unfolding run by auto
qed

lemma handleAddConnection_1_n_schema:
  assumes ap: "activeProject a = Some p" and sp: "schema p = Some s"
    and src: "find (\<lambda>t. tid t = Some sourceTableId) (tables s) = Some sourceTable"
    and tgt: "find (\<lambda>t. tid t = Some targetTableId) (tables s) = Some targetTable"
    and pk: "find isPrimaryKey (columns targetTable) = Some targetPk"
    and fresh: "tname targetTable @ ''_id'' \<notin> set (map cname (columns sourceTable))"
    and clean: "jsonClone s = s"
  shows "\<exists>q. activeProject (handleAddConnection sourceTableId targetTableId OneToN now a) = Some q
      \<and> schema q = Some (s\<lparr>tables := updateFirst (\<lambda>t. tid t = Some sourceTableId)
            (\<lambda>t. t\<lparr>columns := columns t @
               [\<lparr>cid = Some (''col-'' @ sourceTableId @ ''-'' @ tname targetTable @ ''_id'' @ ''-''
                              @ decimal now),
                 cname = tname targetTable @ ''_id'', ctype = ctype targetPk,
                 isPrimaryKey = False, isForeignKey = True,
                 foreignKeyTable = Some (tname targetTable),
                 foreignKeyColumn = Some (cname targetPk), constraints = []\<rparr>]\<rparr>) (tables s)\<rparr>)
      \<and> undoStack q = undoStack p @ [Some s]"
proof -
  have c: "unusedCounter (tname targetTable @ ''_id'') (map cname (columns sourceTable)) 1 = 1"
    using fresh by (intro unusedCounter_free) (simp add: candidateName_def)
  have run: "handleAddConnection sourceTableId targetTableId OneToN now a
      = commitSchemaChange (Some p) (Some (s\<lparr>tables := updateFirst (\<lambda>t. tid t = Some sourceTableId)
            (\<lambda>t. t\<lparr>columns := columns t @
               [\<lparr>cid = Some (''col-'' @ sourceTableId @ ''-'' @ tname targetTable @ ''_id'' @ ''-''
                              @ decimal now),
                 cname = tname targetTable @ ''_id'', ctype = ctype targetPk,
                 isPrimaryKey = False, isForeignKey = True,
                 foreignKeyTable = Some (tname targetTable),
                 foreignKeyColumn = Some (cname targetPk), constraints = []\<rparr>]\<rparr>) (tables s)\<rparr>)) now a"
    using ap sp src tgt pk c
    by (simp add: handleAddConnection_def clean Let_def candidateName_def)
  from commitSchemaChange_schema[OF ap, of p] sp show ?thesis unfolding run by auto
qed

lemma handleDeleteTable_schema:
  assumes ap: "activeProject a = Some p" and sp: "schema p = Some s"
    and found: "find (\<lambda>t. tid t = Some tableId) (tables s) = Some tableToDelete"
  shows "\<exists>q. activeProject (handleDeleteTable tableId True now a) = Some q
      \<and> schema q = Some (s\<lparr>tables :=
           map (\<lambda>t. t\<lparr>columns := filter (\<lambda>c. \<not> (isForeignKey c
                         \<and> foreignKeyTable c = Some (tname tableToDelete))) (columns t)\<rparr>)
               (filter (\<lambda>t. tid t \<noteq> Some tableId) (tables s))\<rparr>)
      \<and> undoStack q = undoStack p @ [Some s]"
proof -
  have run: "handleDeleteTable tableId True now a
      = commitSchemaChange (Some p) (Some (s\<lparr>tables :=
           map (\<lambda>t. t\<lparr>columns := filter (\<lambda>c. \<not> (isForeignKey c
                         \<and> foreignKeyTable c = Some (tname tableToDelete))) (columns t)\<rparr>)
               (filter (\<lambda>t. tid t \<noteq> Some tableId) (tables s))\<rparr>)) now a"
    using ap sp found by (simp add: handleDeleteTable_def Let_def)
  from commitSchemaChange_schema[OF ap, of p] sp show ?thesis unfolding run by auto
qed



text \<open>
  Claim C8. \<open>handleAddTable\<close> names a new table \<open>new_table\<close>, so each table of the
  scenario is added and then renamed. From a project without schema: add a table at time
  \<open>whenUsers\<close>, rename it \<open>users\<close>, add a table at another time \<open>whenPosts\<close>, rename it \<open>posts\<close>.
  Both tables then have the single primary-key column \<open>id\<close>. The 1-to-N connection from
  \<open>posts\<close> to \<open>users\<close> appends to \<open>posts\<close> exactly one column: \<open>users_id\<close>, of the type
  of \<open>users.id\<close>, a foreign key and not a primary key, referencing \<open>users.id\<close>; \<open>users\<close>
  is unchanged. Deleting \<open>users\<close> (confirmed) leaves \<open>posts\<close> alone in the schema, with
  its column \<open>id\<close> only.
\<close>

theorem users_posts_scenario:
  fixes a :: App and whenUsers whenUsersNamed whenPosts whenPostsNamed whenLinked whenDeleted :: nat and usersAt postsAt :: "(real \<times> real) option"
  defines u: "usersId \<equiv> ''table-new_table-'' @ decimal whenUsers"
    and v: "postsId \<equiv> ''table-new_table-'' @ decimal whenPosts"
  defines named: "named \<equiv> handleUpdateTable postsId ''posts'' whenPostsNamed
               (handleAddTable postsAt whenPosts
                 (handleUpdateTable usersId ''users'' whenUsersNamed
                   (handleAddTable usersAt whenUsers a)))"
  assumes ap: "activeProject a = Some p" and empty: "schema p = None" and ids: "whenUsers \<noteq> whenPosts"
  shows "map_option schema (activeProject named)
     = Some (Some \<lparr>tables =
         [\<lparr>tid = Some usersId, tname = ''users'', columns = [idColumn usersId],
            tx = map_option (\<lambda>pos. Num (fst pos)) usersAt,
            ty = map_option (\<lambda>pos. Num (snd pos)) usersAt\<rparr>,
          \<lparr>tid = Some postsId, tname = ''posts'', columns = [idColumn postsId],
            tx = map_option (\<lambda>pos. Num (fst pos)) postsAt,
            ty = map_option (\<lambda>pos. Num (snd pos)) postsAt\<rparr>]\<rparr>)
   \<and> map_option schema (activeProject (handleAddConnection postsId usersId OneToN whenLinked named))
     = Some (Some \<lparr>tables =
         [\<lparr>tid = Some usersId, tname = ''users'', columns = [idColumn usersId],
            tx = map_option (\<lambda>pos. Num (fst pos)) usersAt,
            ty = map_option (\<lambda>pos. Num (snd pos)) usersAt\<rparr>,
          \<lparr>tid = Some postsId, tname = ''posts'',
            columns = [idColumn postsId,
                       \<lparr>cid = Some (''col-'' @ postsId @ ''-users_id-'' @ decimal whenLinked),
                         cname = ''users_id'', ctype = ctype (idColumn usersId),
                         isPrimaryKey = False, isForeignKey = True,
                         foreignKeyTable = Some ''users'', foreignKeyColumn = Some ''id'',
                         constraints = []\<rparr>],
            tx = map_option (\<lambda>pos. Num (fst pos)) postsAt,
            ty = map_option (\<lambda>pos. Num (snd pos)) postsAt\<rparr>]\<rparr>)
   \<and> map_option schema (activeProject
        (handleDeleteTable usersId True whenDeleted (handleAddConnection postsId usersId OneToN whenLinked named)))
     = Some (Some \<lparr>tables =
         [\<lparr>tid = Some postsId, tname = ''posts'', columns = [idColumn postsId],
            tx = map_option (\<lambda>pos. Num (fst pos)) postsAt,
            ty = map_option (\<lambda>pos. Num (snd pos)) postsAt\<rparr>]\<rparr>)"
proof -
  let ?T1 = "\<lparr>tid = Some usersId, tname = ''new_table'', columns = [idColumn usersId],
            tx = map_option (\<lambda>pos. Num (fst pos)) usersAt,
            ty = map_option (\<lambda>pos. Num (snd pos)) usersAt\<rparr>"
  let ?U = "\<lparr>tid = Some usersId, tname = ''users'', columns = [idColumn usersId],
            tx = map_option (\<lambda>pos. Num (fst pos)) usersAt,
            ty = map_option (\<lambda>pos. Num (snd pos)) usersAt\<rparr>"
  let ?T3 = "\<lparr>tid = Some postsId, tname = ''new_table'', columns = [idColumn postsId],
            tx = map_option (\<lambda>pos. Num (fst pos)) postsAt,
            ty = map_option (\<lambda>pos. Num (snd pos)) postsAt\<rparr>"
  let ?P = "\<lparr>tid = Some postsId, tname = ''posts'', columns = [idColumn postsId],
            tx = map_option (\<lambda>pos. Num (fst pos)) postsAt,
            ty = map_option (\<lambda>pos. Num (snd pos)) postsAt\<rparr>"
  let ?fk = "\<lparr>cid = Some (''col-'' @ postsId @ ''-users_id-'' @ decimal whenLinked),
                         cname = ''users_id'', ctype = ctype (idColumn usersId),
                         isPrimaryKey = False, isForeignKey = True,
                         foreignKeyTable = Some ''users'', foreignKeyColumn = Some ''id'',
                         constraints = []\<rparr>"
  let ?PF = "\<lparr>tid = Some postsId, tname = ''posts'', columns = [idColumn postsId, ?fk],
            tx = map_option (\<lambda>pos. Num (fst pos)) postsAt,
            ty = map_option (\<lambda>pos. Num (snd pos)) postsAt\<rparr>"
  have uv: "usersId \<noteq> postsId" using ids by (simp add: u v decimal_eq_iff)
  have nn: "\<And>(f :: real \<times> real \<Rightarrow> real) place. map_option (\<lambda>pos. Num (f pos)) place \<noteq> Some NaN"
    by auto
  have clean1: "jsonClone \<lparr>tables = [?T1]\<rparr> = \<lparr>tables = [?T1]\<rparr>"
    by (rule jsonClone_id) (simp add: nn)
  have clean3: "jsonClone \<lparr>tables = [?U, ?T3]\<rparr> = \<lparr>tables = [?U, ?T3]\<rparr>"
    by (rule jsonClone_id) (simp add: nn)
  have clean4: "jsonClone \<lparr>tables = [?U, ?P]\<rparr> = \<lparr>tables = [?U, ?P]\<rparr>"
    by (rule jsonClone_id) (simp add: nn)
  let ?a1 = "handleAddTable usersAt whenUsers a"
  obtain p1 where p1: "activeProject ?a1 = Some p1" "schema p1 = Some \<lparr>tables = [?T1]\<rparr>"
    using handleAddTable_fresh[OF ap, of "\<lparr>tables = []\<rparr>" usersAt whenUsers] empty
    by (auto simp: u)
  let ?a2 = "handleUpdateTable usersId ''users'' whenUsersNamed ?a1"
  obtain p2 where p2: "activeProject ?a2 = Some p2" "schema p2 = Some \<lparr>tables = [?U]\<rparr>"
    using handleUpdateTable_schema[OF p1, of "''users''" usersId ?T1 whenUsersNamed] clean1
    by (auto simp: renameForeignKeys_def idColumn_def)
  let ?a3 = "handleAddTable postsAt whenPosts ?a2"
  obtain p3 where p3: "activeProject ?a3 = Some p3" "schema p3 = Some \<lparr>tables = [?U, ?T3]\<rparr>"
    using handleAddTable_fresh[OF p2(1), of "\<lparr>tables = [?U]\<rparr>" postsAt whenPosts] p2(2)
    by (auto simp: v)
  obtain p4 where p4: "activeProject named = Some p4" "schema p4 = Some \<lparr>tables = [?U, ?P]\<rparr>"
    using handleUpdateTable_schema[OF p3, of "''posts''" postsId ?T3 whenPostsNamed] uv clean3
    unfolding named by (auto simp: renameForeignKeys_def idColumn_def)
  let ?a5 = "handleAddConnection postsId usersId OneToN whenLinked named"
  obtain p5 where p5: "activeProject ?a5 = Some p5" "schema p5 = Some \<lparr>tables = [?U, ?PF]\<rparr>"
    using handleAddConnection_1_n_schema[OF p4, of postsId ?P usersId ?U "idColumn usersId" whenLinked]
      uv clean4
    by (auto simp: idColumn_def)
  let ?a6 = "handleDeleteTable usersId True whenDeleted ?a5"
  obtain p6 where p6: "activeProject ?a6 = Some p6" "schema p6 = Some \<lparr>tables = [?P]\<rparr>"
    using handleDeleteTable_schema[OF p5, of usersId ?U whenDeleted] uv
    by (auto simp: idColumn_def)
  from p4 p5 p6 show ?thesis by simp
qed


theorem users_posts_scenario_witness:
  "map_option schema (activeProject
      (handleAddConnection ''table-new_table-2000'' ''table-new_table-1000'' OneToN 5000
        (handleUpdateTable ''table-new_table-2000'' ''posts'' 4000
          (handleAddTable (Some (300, 40)) 2000
            (handleUpdateTable ''table-new_table-1000'' ''users'' 3000
              (handleAddTable (Some (10, 20)) 1000 (appOf None AddTable)))))))
     = Some (Some \<lparr>tables =
         [\<lparr>tid = Some ''table-new_table-1000'', tname = ''users'',
            columns = [idColumn ''table-new_table-1000''], tx = Some (Num 10), ty = Some (Num 20)\<rparr>,
          \<lparr>tid = Some ''table-new_table-2000'', tname = ''posts'',
            columns = [idColumn ''table-new_table-2000'',
                       \<lparr>cid = Some ''col-table-new_table-2000-users_id-5000'',
                         cname = ''users_id'', ctype = ''INTEGER'',
                         isPrimaryKey = False, isForeignKey = True,
                         foreignKeyTable = Some ''users'', foreignKeyColumn = Some ''id'',
                         constraints = []\<rparr>],
            tx = Some (Num 300), ty = Some (Num 40)\<rparr>]\<rparr>)
   \<and> map_option schema (activeProject
      (handleDeleteTable ''table-new_table-1000'' True 6000
        (handleAddConnection ''table-new_table-2000'' ''table-new_table-1000'' OneToN 5000
          (handleUpdateTable ''table-new_table-2000'' ''posts'' 4000
            (handleAddTable (Some (300, 40)) 2000
              (handleUpdateTable ''table-new_table-1000'' ''users'' 3000
                (handleAddTable (Some (10, 20)) 1000 (appOf None AddTable))))))))
     = Some (Some \<lparr>tables =
         [\<lparr>tid = Some ''table-new_table-2000'', tname = ''posts'',
            columns = [idColumn ''table-new_table-2000''], tx = Some (Num 300), ty = Some (Num 40)\<rparr>]\<rparr>)"
proof -
  have ap: "activeProject (appOf None AddTable) = Some (projectOf None)" by (simp add: appOf_def)
  have empty: "schema (projectOf None) = None" by (simp add: projectOf_def)
  have ids: "(1000 :: nat) \<noteq> 2000" by simp
  have d1: "decimal 1000 = ''1000''" by (simp add: decimal.simps digitChar_def)
  have d2: "decimal 2000 = ''2000''" by (simp add: decimal.simps digitChar_def)
  have d5: "decimal 5000 = ''5000''" by (simp add: decimal.simps digitChar_def)
  from users_posts_scenario[OF ap empty ids, where usersAt = "Some (10, 20)" and whenUsersNamed = 3000
      and postsAt = "Some (300, 40)" and whenPostsNamed = 4000 and whenLinked = 5000 and whenDeleted = 6000]
  show ?thesis by (simp add: d1 d2 d5 idColumn_def)
qed

section \<open>Junction tables with unresolved targets\<close>





end
